theory Spec2Isabelle
  imports Main
begin

section \<open>JavaScript values of requests and responses\<close>

text \<open>
  Queries and arguments arrive as parsed JSON, a tree without sharing; the validated
  response is rebuilt as a fresh tree. Both sides are modelled by the value type
  \<open>jsval\<close>. An object is the list of its own properties in the order \<open>Object.keys\<close>
  reports them; the keys of one object are pairwise different. A read of a property
  finds own properties; the members every object inherits from \<open>Object.prototype\<close> are
  modelled where a name taken from the request is tested with \<open>in\<close>, in the tree
  builder. Numbers are integers.
\<close>

datatype jsval =
    JUndef
  | JNull
  | JBool bool
  | JNum int
  | JStr string
  | JSymbol string
  | JArr "jsval list"
  | JObj "(string \<times> jsval) list"

text \<open>\<open>Object.prototype.toString.call(ele) === "[object Object]"\<close>\<close>

fun isObject :: "jsval \<Rightarrow> bool" where
  "isObject (JObj kvs) = True"
| "isObject v = False"

fun isArray :: "jsval \<Rightarrow> bool" where
  "isArray (JArr xs) = True"
| "isArray v = False"

text \<open>The condition of \<open>if (v)\<close>.\<close>

fun truthy :: "jsval \<Rightarrow> bool" where
  "truthy JUndef = False"
| "truthy JNull = False"
| "truthy (JBool b) = b"
| "truthy (JNum n) = (n \<noteq> 0)"
| "truthy (JStr s) = (s \<noteq> [])"
| "truthy v = True"

text \<open>Reading, writing and deleting an own property of an object.\<close>

fun getProp :: "(string \<times> jsval) list \<Rightarrow> string \<Rightarrow> jsval" where
  "getProp [] k = JUndef"
| "getProp ((k', v) # kvs) k = (if k' = k then v else getProp kvs k)"

fun setProp :: "(string \<times> 'a) list \<Rightarrow> string \<Rightarrow> 'a \<Rightarrow> (string \<times> 'a) list" where
  "setProp [] k v = [(k, v)]"
| "setProp ((k', v') # kvs) k v = (if k' = k then (k, v) # kvs else (k', v') # setProp kvs k v)"

definition delProp :: "(string \<times> 'a) list \<Rightarrow> string \<Rightarrow> (string \<times> 'a) list" where
  "delProp kvs k = filter (\<lambda>kv. fst kv \<noteq> k) kvs"

definition hasProp :: "(string \<times> 'a) list \<Rightarrow> string \<Rightarrow> bool" where
  "hasProp kvs k = (k \<in> set (map fst kvs))"

text \<open>\<open>xs.join(sep)\<close> on an array of strings.\<close>

fun join :: "string \<Rightarrow> string list \<Rightarrow> string" where
  "join sep [] = []"
| "join sep [x] = x"
| "join sep (x # y # ys) = x @ sep @ join sep (y # ys)"

section \<open>Errors\<close>

text \<open>
  The three error classes of the engine are built from a message and a field path, which
  the model keeps as they are passed to the constructor (\<open>JomqlBaseError\<close> puts the
  name of the error before the message). \<open>TypeError\<close> is the run-time error of
  JavaScript itself (a property read on \<open>null\<close>, a call of something that is no
  function). \<open>Thrown\<close> stands for any other exception raised by code the schema
  supplies (parsers, serializers, validators, resolvers).
\<close>

datatype jomql_error =
    JomqlArgsError string "string list"
  | JomqlQueryError string "string list"
  | JomqlResultError string "string list"
  | TypeError string
  | Thrown string

fun isArgsError :: "jomql_error \<Rightarrow> bool" where
  "isArgsError (JomqlArgsError m p) = True"
| "isArgsError e = False"

section \<open>Scalar and input types\<close>

text \<open>
  Modelled from the spec: the classes \<open>JomqlScalarType\<close>, \<open>JomqlInputType\<close>,
  \<open>JomqlInputTypeLookup\<close> and \<open>JomqlInputFieldType\<close> are imported by the helpers and
  their declarations are missing. The model keeps the members the helpers read from
  their \<open>definition\<close>: a scalar has a name and optional \<open>parseValue\<close> and \<open>serialize\<close>
  transforms, an argument definition a type, \<open>required\<close>, \<open>allowNull\<close> and optional
  \<open>arrayOptions\<close>, an input type its fields and an optional \<open>inputsValidator\<close>. A
  transform either returns a value or throws; a validator returns nothing or throws.
\<close>

record jomqlScalarType =
  scalar_name :: string
  parseValue :: "(jsval \<Rightarrow> jomql_error + jsval) option"
  serialize :: "(jsval \<Rightarrow> jomql_error + jsval) option"

record arrayOptions =
  allowNullElement :: bool

datatype jomqlInputFieldType =
  JomqlInputFieldType
    (required: bool)
    (arg_allowNull: bool)
    (arg_arrayOptions: "arrayOptions option")
    (arg_type: jomqlInputFieldKind)
and jomqlInputFieldKind =
    ArgScalar jomqlScalarType
  | ArgInput jomqlInputType
  | ArgInputLookup string
and jomqlInputType =
  JomqlInputType
    (input_name: string)
    (input_fields: "(string \<times> jomqlInputFieldType) list")
    (inputsValidator: "(jsval \<Rightarrow> string list \<Rightarrow> jomql_error option) option")

text \<open>
  Modelled from the spec: the registry \<open>inputTypeDefs\<close> is imported and missing; it is
  a read-only map from names to input types, taken as a parameter.
\<close>

type_synonym inputTypeDefs = "string \<rightharpoonup> jomqlInputType"

text \<open>The type an argument definition names, after a lookup has been resolved.\<close>

datatype argDefType = ScalarDef jomqlScalarType | InputDef jomqlInputType

section \<open>Validation of arguments\<close>

text \<open>
  Modelled from the spec: the message for an unregistered input type interpolates an
  object of the class \<open>JomqlInputTypeLookup\<close>, which is missing; the model takes the
  conversion to a string that every object has unless its class overrides it.
\<close>

definition lookupToString :: "string \<Rightarrow> string" where
  "lookupToString n = ''[object Object]''"

text \<open>The messages that interpolate a value.\<close>

definition unknownInputDefMessage :: "string \<Rightarrow> string" where
  "unknownInputDefMessage n = ''Unknown inputDef '' @ [CHR 0x27] @ lookupToString n @ [CHR 0x27]"

definition invalidScalarMessage :: "string \<Rightarrow> string" where
  "invalidScalarMessage n = ''Invalid scalar value for '' @ [CHR 0x27] @ n @ [CHR 0x27]"

definition unknownArgsMessage :: "string list \<Rightarrow> string" where
  "unknownArgsMessage keysToValidate =
     ''Unknown args '' @ [CHR 0x27] @ join '','' keysToValidate @ [CHR 0x27]"

definition resolveArgType ::
  "inputTypeDefs \<Rightarrow> jomqlInputFieldKind \<Rightarrow> string list \<Rightarrow> jomql_error + argDefType" where
  "resolveArgType inputTypeDefs t fieldPath =
     (case t of
        ArgInputLookup n \<Rightarrow>
          (case inputTypeDefs n of
             None \<Rightarrow> Inl (JomqlArgsError (unknownInputDefMessage n) fieldPath)
           | Some inputDef \<Rightarrow> Inr (InputDef inputDef))
      | ArgInput i \<Rightarrow> Inr (InputDef i)
      | ArgScalar s \<Rightarrow> Inr (ScalarDef s))"

text \<open>\<open>args.map((ele) => parseValue(ele))\<close>: the first exception ends the map.\<close>

fun mapParse :: "(jsval \<Rightarrow> jomql_error + jsval) \<Rightarrow> jsval list \<Rightarrow> jomql_error + jsval list" where
  "mapParse f [] = Inr []"
| "mapParse f (x # xs) =
     (case f x of
        Inl e \<Rightarrow> Inl e
      | Inr y \<Rightarrow> (case mapParse f xs of Inl e \<Rightarrow> Inl e | Inr ys \<Rightarrow> Inr (y # ys)))"

text \<open>\<open>parsedArgs ?? args\<close>\<close>

definition nullish :: "jsval \<Rightarrow> bool" where
  "nullish v = (v = JNull \<or> v = JUndef)"

definition coalesce :: "jsval \<Rightarrow> jsval \<Rightarrow> jsval" where
  "coalesce a b = (if nullish a then b else a)"

text \<open>The scalar branch: \<open>parseValue\<close> is applied unless it is absent or \<open>args\<close> is \<open>null\<close>;
  whatever it throws is replaced by an args error.\<close>

definition parseScalarArgs ::
  "jomqlScalarType \<Rightarrow> jomqlInputFieldType \<Rightarrow> jsval \<Rightarrow> string list \<Rightarrow> jomql_error + jsval" where
  "parseScalarArgs s argDefinition args fieldPath =
     (case parseValue s of
        None \<Rightarrow> Inr (coalesce JUndef args)
      | Some pv \<Rightarrow>
          if args = JNull then Inr (coalesce JUndef args)
          else
            (case (case args of
                     JArr elems \<Rightarrow>
                       if arg_arrayOptions argDefinition \<noteq> None
                       then map_sum id JArr (mapParse pv elems)
                       else pv args
                   | _ \<Rightarrow> pv args) of
               Inl e \<Rightarrow>
                 Inl (JomqlArgsError (invalidScalarMessage (scalar_name s)) fieldPath)
             | Inr parsedArgs \<Rightarrow> Inr (coalesce parsedArgs args)))"

text \<open>
  \<open>validateExternalArgs\<close> with its two loops: \<open>validateArgsArray\<close> is
  \<open>for (const arg of argsArray)\<close>, \<open>validateArg\<close> its body and
  \<open>validateArgFields\<close> the \<open>forEach\<close> over the declared fields, which carries the
  object under validation and the set \<open>keysToValidate\<close>. The source rewrites the object
  in place; the model returns the rewritten object, and \<open>validateExternalArgs\<close> returns
  the pair of its return value and of the argument as the call leaves it (for an input
  type they are the same object, for a scalar type the argument is left as it was and the
  parsed value is only returned). An iteration of the
  \<open>forEach\<close> reads \<open>arg[key]\<close> before its own write, and the earlier iterations wrote
  other keys only (the declared keys are the keys of one object), so the value it reads is
  the one the object had on entry, \<open>arg0\<close>.
\<close>

lemma size_getProp [termination_simp]:
  "size (getProp kvs k) < Suc (size_list (size_prod (\<lambda>_. 0) size) kvs)"
  by (induction kvs) auto

function (sequential)
  validateExternalArgs ::
    "inputTypeDefs \<Rightarrow> jsval \<Rightarrow> jomqlInputFieldType option \<Rightarrow> string list
       \<Rightarrow> jomql_error + jsval \<times> jsval"
and validateArgsArray ::
    "inputTypeDefs \<Rightarrow> jomqlInputFieldType \<Rightarrow> jomqlInputType \<Rightarrow> jsval list \<Rightarrow> string list
       \<Rightarrow> jomql_error + jsval list"
and validateArg ::
    "inputTypeDefs \<Rightarrow> jomqlInputFieldType \<Rightarrow> jomqlInputType \<Rightarrow> jsval \<Rightarrow> string list
       \<Rightarrow> jomql_error + jsval"
and validateArgFields ::
    "inputTypeDefs \<Rightarrow> (string \<times> jsval) list \<Rightarrow> (string \<times> jomqlInputFieldType) list \<Rightarrow> string list
       \<Rightarrow> (string \<times> jsval) list \<times> string list
       \<Rightarrow> jomql_error + (string \<times> jsval) list \<times> string list"
where
  "validateExternalArgs inputTypeDefs args None fieldPath =
     (if truthy args then Inl (JomqlArgsError ''Not expecting any args'' fieldPath)
      else Inr (JUndef, args))"
| "validateExternalArgs inputTypeDefs args (Some argDefinition) fieldPath =
     (if \<not> required argDefinition \<and> args = JUndef then Inr (JUndef, args)
      else if required argDefinition \<and> args = JUndef
        then Inl (JomqlArgsError ''Args is required'' fieldPath)
      else if \<not> arg_allowNull argDefinition \<and> args = JNull
        then Inl (JomqlArgsError ''Null field is not allowed'' fieldPath)
      else if arg_arrayOptions argDefinition \<noteq> None \<and> arg_allowNull argDefinition
              \<and> \<not> isArray args \<and> args \<noteq> JNull
        then Inl (JomqlArgsError ''Field must be Array or null'' fieldPath)
      else if arg_arrayOptions argDefinition \<noteq> None \<and> \<not> arg_allowNull argDefinition
              \<and> \<not> isArray args
        then Inl (JomqlArgsError ''Array expected'' fieldPath)
      else
        (case resolveArgType inputTypeDefs (arg_type argDefinition) fieldPath of
           Inl e \<Rightarrow> Inl e
         | Inr (InputDef argDefType) \<Rightarrow>
             (case (args, arg_arrayOptions argDefinition) of
                (JArr elems, Some ao) \<Rightarrow>
                  if \<not> allowNullElement ao \<and> (\<exists>ele \<in> set elems. ele = JNull)
                  then Inl (JomqlArgsError ''Null field is not allowed on array element'' fieldPath)
                  else
                    (case validateArgsArray inputTypeDefs argDefinition argDefType elems fieldPath of
                       Inl e \<Rightarrow> Inl e
                     | Inr elems' \<Rightarrow> Inr (coalesce JUndef (JArr elems'), JArr elems'))
              | _ \<Rightarrow>
                  (case validateArg inputTypeDefs argDefinition argDefType args fieldPath of
                     Inl e \<Rightarrow> Inl e
                   | Inr arg' \<Rightarrow> Inr (coalesce JUndef arg', arg')))
         | Inr (ScalarDef s) \<Rightarrow>
             (case parseScalarArgs s argDefinition args fieldPath of
                Inl e \<Rightarrow> Inl e
              | Inr v \<Rightarrow> Inr (v, args))))"
| "validateArgsArray inputTypeDefs argDefinition argDefType [] fieldPath = Inr []"
| "validateArgsArray inputTypeDefs argDefinition argDefType (arg # argsArray) fieldPath =
     (case validateArg inputTypeDefs argDefinition argDefType arg fieldPath of
        Inl e \<Rightarrow> Inl e
      | Inr arg' \<Rightarrow>
          (case validateArgsArray inputTypeDefs argDefinition argDefType argsArray fieldPath of
             Inl e \<Rightarrow> Inl e
           | Inr rest \<Rightarrow> Inr (arg' # rest)))"
| "validateArg inputTypeDefs argDefinition argDefType arg fieldPath =
     (if \<not> isObject arg \<and> \<not> arg_allowNull argDefinition
      then Inl (JomqlArgsError ''Object expected'' fieldPath)
      else
        (case arg of
           JObj kvs \<Rightarrow>
             (case validateArgFields inputTypeDefs kvs (input_fields argDefType) fieldPath
                     (kvs, map fst kvs) of
                Inl e \<Rightarrow> Inl e
              | Inr (kvs', keysToValidate) \<Rightarrow>
                  if length keysToValidate > 0
                  then Inl (JomqlArgsError (unknownArgsMessage keysToValidate) fieldPath)
                  else
                    (case inputsValidator argDefType of
                       None \<Rightarrow> Inr (JObj kvs')
                     | Some validator \<Rightarrow>
                         (case validator (JObj kvs') fieldPath of
                            Some e \<Rightarrow> Inl e
                          | None \<Rightarrow> Inr (JObj kvs'))))
         | _ \<Rightarrow> Inr arg))"
| "validateArgFields inputTypeDefs arg0 [] fieldPath (arg, keysToValidate) =
     Inr (arg, keysToValidate)"
| "validateArgFields inputTypeDefs arg0 ((key, argDef) # entries) fieldPath (arg, keysToValidate) =
     (case validateExternalArgs inputTypeDefs (getProp arg0 key) (Some argDef) (fieldPath @ [key]) of
        Inl e \<Rightarrow> Inl e
      | Inr (validatedArg, _) \<Rightarrow>
          validateArgFields inputTypeDefs arg0 entries fieldPath
            (if validatedArg = JUndef then delProp arg key else setProp arg key validatedArg,
             removeAll key keysToValidate))"
  by pat_completeness auto

termination
  by (relation "inv_image (less_than <*lex*> less_than <*lex*> less_than)
        (\<lambda>x. case x of
           Inl (Inl (defs, args, d, p)) \<Rightarrow> (size args, 3::nat, 0::nat)
         | Inl (Inr (defs, d, t, argsArray, p)) \<Rightarrow> (size_list size argsArray, 0, 0)
         | Inr (Inl (defs, d, t, arg, p)) \<Rightarrow> (size arg, 2, 0)
         | Inr (Inr (defs, arg0, es, p, st)) \<Rightarrow> (size (JObj arg0), 1, length es))")
    (auto simp: size_getProp)

declare validateExternalArgs.simps(2) [simp del] validateArg.simps [simp del]

section \<open>Run-time values and the store\<close>

text \<open>
  Resolver execution and batch aggregation rewrite result objects in place, and two
  places may hold the same object. Results are therefore values with references:
  \<open>HObj a\<close> is the object at address \<open>a\<close> of the store, which maps every address to the
  properties of its object. None of the functions modelled allocates an object or writes
  into an array, so an array is a value, tagged with its identity so that two arrays with
  equal elements stay different keys of a \<open>Set\<close> or a \<open>Map\<close>. Equality of \<open>hval\<close> is
  then the equality those collections use.
\<close>

type_synonym addr = nat

datatype hval =
    HUndef
  | HNull
  | HBool bool
  | HNum int
  | HStr string
  | HArr nat "hval list"
  | HObj addr

type_synonym heap = "addr \<Rightarrow> (string \<times> hval) list"

fun hgetProp :: "(string \<times> hval) list \<Rightarrow> string \<Rightarrow> hval" where
  "hgetProp [] k = HUndef"
| "hgetProp ((k', v) # kvs) k = (if k' = k then v else hgetProp kvs k)"

fun htruthy :: "hval \<Rightarrow> bool" where
  "htruthy HUndef = False"
| "htruthy HNull = False"
| "htruthy (HBool b) = b"
| "htruthy (HNum n) = (n \<noteq> 0)"
| "htruthy (HStr s) = (s \<noteq> [])"
| "htruthy v = True"

text \<open>
  \<open>v[field]\<close> and \<open>v[field] = x\<close> for the name of a schema field (not an index, not
  \<open>length\<close>). A read on \<open>null\<close> or \<open>undefined\<close> throws; on any other value that is not
  an object it finds no such property. A write on \<open>null\<close>, \<open>undefined\<close> or a primitive
  throws (the modules are compiled in strict mode); a named property set on an array is
  not part of the model's arrays and leaves the store as it is.
\<close>

fun readField :: "heap \<Rightarrow> hval \<Rightarrow> string \<Rightarrow> jomql_error + hval" where
  "readField h (HObj a) field = Inr (hgetProp (h a) field)"
| "readField h HUndef field = Inl (TypeError ''Cannot read properties of undefined'')"
| "readField h HNull field = Inl (TypeError ''Cannot read properties of null'')"
| "readField h v field = Inr HUndef"

fun writeField :: "heap \<Rightarrow> hval \<Rightarrow> string \<Rightarrow> hval \<Rightarrow> jomql_error + heap" where
  "writeField h (HObj a) field x = Inr (h(a := setProp (h a) field x))"
| "writeField h (HArr i xs) field x = Inr h"
| "writeField h HUndef field x = Inl (TypeError ''Cannot set properties of undefined'')"
| "writeField h HNull field x = Inl (TypeError ''Cannot set properties of null'')"
| "writeField h v field x = Inl (TypeError ''Cannot create property'')"

section \<open>Resolvers, object types and resolver nodes\<close>

text \<open>
  A resolver is code of the schema: it receives the request, the field path, the node's
  arguments and query, the current value, the parent value and the shared data object,
  may read and write the store, and returns a value or throws. A root resolver is given
  the first four only; the model passes it \<open>undefined\<close> for the rest.
\<close>

record resolverInput =
  ri_req :: hval
  ri_fieldPath :: "string list"
  ri_args :: jsval
  ri_query :: jsval
  ri_fieldValue :: hval
  ri_parentValue :: hval
  ri_data :: hval

type_synonym resolverFunction = "resolverInput \<Rightarrow> heap \<Rightarrow> jomql_error + hval \<times> heap"

text \<open>
  Modelled from the spec: the types \<open>ObjectTypeDefinitionField\<close> and
  \<open>RootResolverDefinition\<close>, the classes \<open>JomqlObjectType\<close> and
  \<open>JomqlObjectTypeLookup\<close> and the guard \<open>isRootResolverDefinition\<close> are imported and
  their declarations are missing. The model keeps the members the helpers read. A root
  resolver definition is a field definition with an entry-point resolver; which of the
  two a definition is, the model records in a flag named after the guard. The member
  \<open>defer\<close> is written \<open>deferred\<close>. \<open>FieldUndefined\<close> is the \<open>type\<close> of a value that
  has no such member: the tree builder can meet one in place of a field definition.
\<close>

datatype objectTypeDefinitionField =
  ObjectTypeDefinitionField
    (field_type: jomqlFieldKind)
    (allowNull: bool)
    (field_arrayOptions: "arrayOptions option")
    (field_args: "jomqlInputFieldType option")
    (hidden: bool)
    (resolver: "resolverFunction option")
    (deferred: bool)
    (isRootResolverDefinition: bool)
and jomqlFieldKind =
    FieldScalar jomqlScalarType
  | FieldObject jomqlObjectType
  | FieldObjectLookup string
  | FieldUndefined
and jomqlObjectType =
  JomqlObjectType
    (object_name: string)
    (object_fields: "(string \<times> objectTypeDefinitionField) list")

text \<open>
  Modelled from the spec: the registry \<open>objectTypeDefs\<close> is imported and missing; it is
  a read-only map from names to object types, taken as a parameter.
\<close>

type_synonym objectTypeDefs = "string \<rightharpoonup> jomqlObjectType"

text \<open>The type a field definition names, after a lookup has been resolved.\<close>

datatype fieldDefType =
    ScalarField jomqlScalarType
  | ObjectField jomqlObjectType
  | UndefinedField

datatype jomqlResolverNode =
  JomqlResolverNode
    (node_typeDef: objectTypeDefinitionField)
    (node_query: jsval)
    (node_args: jsval)
    (node_nested: "(string \<times> jomqlResolverNode) list option")

text \<open>Own properties of an association list, for field definitions and nested nodes.\<close>

fun lookupProp :: "(string \<times> 'a) list \<Rightarrow> string \<Rightarrow> 'a option" where
  "lookupProp [] k = None"
| "lookupProp ((k', v) # kvs) k = (if k' = k then Some v else lookupProp kvs k)"

section \<open>Building the resolver tree\<close>

text \<open>
  Modelled from the spec: \<open>getParams\<close> and \<open>lookupSymbol\<close> are imported and missing.
  The configuration the builder reads is a parameter: the two registries and the
  configured lookup value, the marker that asks for a scalar leaf. \<open>lookupSymbol\<close> is
  a symbol, a second such marker.
\<close>

record jomqlParams =
  objectTypeDefs :: objectTypeDefs
  inputTypeDefs :: inputTypeDefs
  lookupValue :: jsval

definition lookupSymbol :: jsval where
  "lookupSymbol = JSymbol ''lookup''"

text \<open>
  \<open>a === b\<close> between a value of the request and a configured value: primitives are
  compared by value; an object or array of the request is never the configured one.
\<close>

fun strictEquals :: "jsval \<Rightarrow> jsval \<Rightarrow> bool" where
  "strictEquals (JObj kvs) b = False"
| "strictEquals (JArr xs) b = False"
| "strictEquals a b = (a = b)"

definition typeDefNotFoundMessage :: "string \<Rightarrow> string" where
  "typeDefNotFoundMessage n = ''TypeDef '' @ [CHR 0x27] @ n @ [CHR 0x27] @ '' not found''"

definition resolveFieldType ::
  "objectTypeDefs \<Rightarrow> jomqlFieldKind \<Rightarrow> string list \<Rightarrow> jomql_error + fieldDefType" where
  "resolveFieldType defs t fieldPath =
     (case t of
        FieldObjectLookup n \<Rightarrow>
          (case defs n of
             None \<Rightarrow> Inl (JomqlQueryError (typeDefNotFoundMessage n) fieldPath)
           | Some typeDefLookup \<Rightarrow> Inr (ObjectField typeDefLookup))
      | FieldObject t \<Rightarrow> Inr (ObjectField t)
      | FieldScalar s \<Rightarrow> Inr (ScalarField s)
      | FieldUndefined \<Rightarrow> Inr UndefinedField)"

fun isObjectType :: "fieldDefType \<Rightarrow> bool" where
  "isObjectType (ObjectField t) = True"
| "isObjectType ft = False"

text \<open>\<open>resolverObject.args?.definition.required\<close>\<close>

definition argsRequired :: "objectTypeDefinitionField \<Rightarrow> bool" where
  "argsRequired resolverObject =
     (case field_args resolverObject of None \<Rightarrow> False | Some argDefinition \<Rightarrow> required argDefinition)"

text \<open>\<open>const { __args: args = null, ...query } = fieldValue\<close>\<close>

definition argsOf :: "(string \<times> jsval) list \<Rightarrow> jsval" where
  "argsOf kvs = (if getProp kvs ''__args'' = JUndef then JNull else getProp kvs ''__args'')"

definition queryOf :: "(string \<times> jsval) list \<Rightarrow> (string \<times> jsval) list" where
  "queryOf kvs = filter (\<lambda>kv. fst kv \<noteq> ''__args'') kvs"

text \<open>
  Modelled from the spec: the \<open>fields\<close> of an object type are a plain object (the class
  is missing), so \<open>field in fields\<close> also holds for the names of the members every
  object inherits from \<open>Object.prototype\<close>, and \<open>fields[field]\<close> is then that member, a
  function or the prototype itself. Such a value has none of the members of a field
  definition: no \<open>type\<close>, \<open>args\<close> or \<open>resolver\<close>, and \<open>hidden\<close>, \<open>allowNull\<close> and
  \<open>defer\<close> are undefined, that is false.
\<close>

definition objectPrototypeNames :: "string list" where
  "objectPrototypeNames =
     [''constructor'', ''__defineGetter__'', ''__defineSetter__'', ''hasOwnProperty'',
      ''__lookupGetter__'', ''__lookupSetter__'', ''isPrototypeOf'', ''propertyIsEnumerable'',
      ''toString'', ''valueOf'', ''__proto__'', ''toLocaleString'']"

definition inheritedMember :: objectTypeDefinitionField where
  "inheritedMember =
     ObjectTypeDefinitionField FieldUndefined False None None False None False False"

text \<open>\<open>field in fields\<close> and, where it holds, \<open>fields[field]\<close>.\<close>

definition fieldIn :: "(string \<times> objectTypeDefinitionField) list \<Rightarrow> string
    \<Rightarrow> objectTypeDefinitionField option" where
  "fieldIn fieldDefs field =
     (case lookupProp fieldDefs field of
        Some fieldDef \<Rightarrow> Some fieldDef
      | None \<Rightarrow> if field \<in> set objectPrototypeNames then Some inheritedMember else None)"

text \<open>
  \<open>nestedNodes[field] = node\<close>: an own property, but for the name \<open>__proto__\<close>, where
  the assignment sets the prototype of \<open>nestedNodes\<close> and adds no own property. (The
  members of that node are then inherited by \<open>nestedNodes\<close>; the model's nested nodes are
  the own properties.)
\<close>

definition assignNode ::
  "(string \<times> jomqlResolverNode) list \<Rightarrow> string \<Rightarrow> jomqlResolverNode
     \<Rightarrow> (string \<times> jomqlResolverNode) list" where
  "assignNode nestedNodes field node =
     (if field = ''__proto__'' then nestedNodes else setProp nestedNodes field node)"

lemma size_member [termination_simp]:
  "(k, v) \<in> set kvs \<Longrightarrow> size v < Suc (size_list (size_prod (\<lambda>_. 0) size) kvs)"
  by (induction kvs) auto

text \<open>
  \<open>generateJomqlResolverTree\<close>, and \<open>generateNestedNodes\<close> for its loop
  \<open>for (const field in fieldValue)\<close>, which carries \<open>nestedNodes\<close>. The validation of
  arguments rewrites \<open>fieldValue.__args\<close> in place, here and in every recursive call,
  and the node's \<open>args\<close> and \<open>query\<close> refer to those objects. Both functions therefore
  return, beside their result, the field value as the call leaves it, from which the
  node's \<open>args\<close> and \<open>query\<close> are read.
\<close>

function (sequential)
  generateJomqlResolverTree ::
    "jomqlParams \<Rightarrow> jsval \<Rightarrow> objectTypeDefinitionField \<Rightarrow> string list \<Rightarrow> bool
       \<Rightarrow> jomql_error + jomqlResolverNode \<times> jsval"
and generateNestedNodes ::
    "jomqlParams \<Rightarrow> objectTypeDefinitionField \<Rightarrow> jomqlObjectType \<Rightarrow> (string \<times> jsval) list
       \<Rightarrow> string list \<Rightarrow> bool
       \<Rightarrow> (string \<times> jomqlResolverNode) list \<times> (string \<times> jsval) list
       \<Rightarrow> jomql_error + (string \<times> jomqlResolverNode) list \<times> (string \<times> jsval) list"
where
  "generateJomqlResolverTree params fieldValue resolverObject fieldPath fullTree =
     (case resolveFieldType (objectTypeDefs params) (field_type resolverObject) fieldPath of
        Inl e \<Rightarrow> Inl e
      | Inr fieldType \<Rightarrow>
          (let isLookupField = (strictEquals fieldValue (lookupValue params)
                                \<or> strictEquals fieldValue lookupSymbol);
               isLeafNode = (\<not> isObjectType fieldType)
           in
             if \<not> isLookupField \<and> \<not> isObject fieldValue
               then Inl (JomqlQueryError ''Invalid field RHS'' fieldPath)
             else if isLeafNode \<and> isObject fieldValue
                     \<and> (case fieldValue of
                           JObj kvs \<Rightarrow> \<not> hasProp kvs ''__args'' \<or> length (map fst kvs) \<noteq> 1
                         | _ \<Rightarrow> False)
               then Inl (JomqlQueryError
                           ''Scalar node can only accept __args and no other field'' fieldPath)
             else if \<not> isLeafNode \<and> isLookupField
               then Inl (JomqlQueryError
                           ''Resolved node must be an object with nested fields'' fieldPath)
             else if isLeafNode \<and> argsRequired resolverObject \<and> \<not> isObject fieldValue
               then Inl (JomqlQueryError ''Args required'' fieldPath)
             else
               (case fieldValue of
                  JObj kvs \<Rightarrow>
                    (case validateExternalArgs (inputTypeDefs params) (getProp kvs ''__args'')
                            (field_args resolverObject) (fieldPath @ [''__args'']) of
                       Inl e \<Rightarrow> Inl e
                     | Inr (validated, args') \<Rightarrow>
                         (let kvs1 = (if hasProp kvs ''__args'' then setProp kvs ''__args'' args'
                                      else kvs)
                          in
                            case fieldType of
                              ObjectField t \<Rightarrow>
                                (case generateNestedNodes params resolverObject t kvs fieldPath
                                        fullTree ([], kvs1) of
                                   Inl e \<Rightarrow> Inl e
                                 | Inr (nestedNodes, kvs2) \<Rightarrow>
                                     Inr (JomqlResolverNode resolverObject (JObj (queryOf kvs2))
                                            (argsOf kvs2) (Some nestedNodes),
                                          JObj kvs2))
                            | _ \<Rightarrow>
                                Inr (JomqlResolverNode resolverObject (JObj (queryOf kvs1))
                                       (argsOf kvs1) None,
                                     JObj kvs1)))
                | _ \<Rightarrow>
                    Inr (JomqlResolverNode resolverObject (JObj []) JNull None, fieldValue))))"
| "generateNestedNodes params resolverObject fieldType [] fieldPath fullTree (nestedNodes, kvs') =
     Inr (nestedNodes, kvs')"
| "generateNestedNodes params resolverObject fieldType ((field, v) # rest) fieldPath fullTree
       (nestedNodes, kvs') =
     (if field = ''__args''
      then generateNestedNodes params resolverObject fieldType rest fieldPath fullTree
             (nestedNodes, kvs')
      else
        (case fieldIn (object_fields fieldType) field of
           None \<Rightarrow> Inl (JomqlQueryError ''Unknown field'' (fieldPath @ [field]))
         | Some fieldDef \<Rightarrow>
             if hidden fieldDef
             then Inl (JomqlQueryError ''Hidden field'' (fieldPath @ [field]))
             else if fullTree \<or> resolver resolverObject = None
             then
               (case generateJomqlResolverTree params v fieldDef (fieldPath @ [field]) fullTree of
                  Inl e \<Rightarrow> Inl e
                | Inr (node, v') \<Rightarrow>
                    generateNestedNodes params resolverObject fieldType rest fieldPath fullTree
                      (assignNode nestedNodes field node, setProp kvs' field v'))
             else generateNestedNodes params resolverObject fieldType rest fieldPath fullTree
                    (nestedNodes, kvs')))"
  by pat_completeness auto

termination
  by (relation "inv_image (less_than <*lex*> less_than)
        (\<lambda>x. case x of
           Inl (params, fieldValue, d, p, f) \<Rightarrow> (size fieldValue, 1::nat)
         | Inr (params, d, t, kvs, p, f, st) \<Rightarrow> (size_list (size_prod (\<lambda>_. 0) size) kvs, 0))")
    (auto simp: size_member)

declare generateJomqlResolverTree.simps [simp del]

section \<open>Validation of results\<close>

text \<open>
  The validator only reads the result tree and builds its answer from fresh objects, so
  it is modelled on values. A function that returns nothing or throws has the result
  type \<open>jomql_error + unit\<close>.
\<close>

definition nullNotAllowedMessage :: "arrayOptions option \<Rightarrow> string" where
  "nullNotAllowedMessage ao =
     ''Null value not allowed'' @ (if ao \<noteq> None then '' for array element'' else [])"

definition validateResultNullish ::
  "jsval \<Rightarrow> objectTypeDefinitionField \<Rightarrow> string list \<Rightarrow> arrayOptions option
     \<Rightarrow> jomql_error + unit" where
  "validateResultNullish v resolverObject fieldPath ao =
     (let isNullAllowed = (case ao of Some a \<Rightarrow> allowNullElement a
                                    | None \<Rightarrow> allowNull resolverObject)
      in if (v = JNull \<or> v = JUndef) \<and> \<not> isNullAllowed
         then Inl (JomqlResultError (nullNotAllowedMessage ao) fieldPath)
         else Inr ())"

text \<open>\<open>value.forEach((ele) => validateResultNullish(ele, ...))\<close>\<close>

fun validateResultElements ::
  "jsval list \<Rightarrow> objectTypeDefinitionField \<Rightarrow> string list \<Rightarrow> jomql_error + unit" where
  "validateResultElements [] resolverObject fieldPath = Inr ()"
| "validateResultElements (ele # rest) resolverObject fieldPath =
     (case validateResultNullish ele resolverObject fieldPath (field_arrayOptions resolverObject) of
        Inl e \<Rightarrow> Inl e
      | Inr u \<Rightarrow> validateResultElements rest resolverObject fieldPath)"

definition validateResultFields ::
  "jsval \<Rightarrow> objectTypeDefinitionField \<Rightarrow> string list \<Rightarrow> jomql_error + unit" where
  "validateResultFields v resolverObject fieldPath =
     (if field_arrayOptions resolverObject \<noteq> None then
        (case v of
           JArr elems \<Rightarrow> validateResultElements elems resolverObject fieldPath
         | _ \<Rightarrow>
             if \<not> allowNull resolverObject
               then Inl (JomqlResultError ''Array expected'' fieldPath)
             else if v \<noteq> JNull
               then Inl (JomqlResultError ''Array or null expected'' fieldPath)
             else Inr ())
      else validateResultNullish v resolverObject fieldPath (field_arrayOptions resolverObject))"

text \<open>\<open>v[field]\<close> on a value of the result tree.\<close>

fun getField :: "jsval \<Rightarrow> string \<Rightarrow> jomql_error + jsval" where
  "getField (JObj kvs) field = Inr (getProp kvs field)"
| "getField JUndef field = Inl (TypeError ''Cannot read properties of undefined'')"
| "getField JNull field = Inl (TypeError ''Cannot read properties of null'')"
| "getField v field = Inr JUndef"

text \<open>The leaf branch after the null and array checks: serialization of a scalar.\<close>

definition serializeLeaf ::
  "objectTypeDefs \<Rightarrow> jsval \<Rightarrow> objectTypeDefinitionField \<Rightarrow> string list \<Rightarrow> jomql_error + jsval" where
  "serializeLeaf defs v typeDef fieldPath =
     (case resolveFieldType defs (field_type typeDef) fieldPath of
        Inl e \<Rightarrow> Inl e
      | Inr (ObjectField t) \<Rightarrow> Inr v
      | Inr UndefinedField \<Rightarrow> Inl (TypeError ''Cannot read properties of undefined'')
      | Inr (ScalarField s) \<Rightarrow>
          (case serialize s of
             Some serializeFn \<Rightarrow>
               if v \<noteq> JNull \<and> v \<noteq> JUndef then
                 (case (case v of
                          JArr elems \<Rightarrow>
                            if field_arrayOptions typeDef \<noteq> None
                            then map_sum id JArr (mapParse serializeFn elems)
                            else serializeFn v
                        | _ \<Rightarrow> serializeFn v) of
                    Inl e \<Rightarrow> Inl (JomqlResultError (invalidScalarMessage (scalar_name s)) fieldPath)
                  | Inr r \<Rightarrow> Inr r)
               else Inr v
           | None \<Rightarrow> Inr v))"

text \<open>
  \<open>validateJomqlResults\<close> is an async function and validates the elements of an array
  under \<open>Promise.all\<close>: every element's validation is started, and the array's promise
  is rejected by the element whose promise is rejected first. Which one that is depends
  on when each promise settles, so the model computes, with the outcome of every promise,
  the number of turns of the job queue after which it settles, counted from the call.
  The rules are those of the language:
  \<^item> an async function runs at once up to its first \<open>await\<close>; its promise settles in
    the turn in which it returns a value or throws;
  \<^item> \<open>await p\<close> resumes one turn after \<open>p\<close> has settled;
  \<^item> \<open>Promise.all\<close> of no promise is fulfilled at once; otherwise it is rejected one
    turn after the first rejection among its promises, and fulfilled one turn after the
    last of them is fulfilled; jobs queued in one turn run in the order they were
    queued, so of two elements rejected in the same turn the left one is first;
  \<^item> an async function that returns a promise settles one turn after that promise is
    adopted, which takes a turn of its own: two turns after the return, or one turn
    after the promise settles if that is later.
\<close>

text \<open>The rejection that reaches \<open>Promise.all\<close> first: the least time, the leftmost of equals.\<close>

fun firstRejection :: "((jomql_error + 'a) \<times> nat) list \<Rightarrow> (jomql_error \<times> nat) option" where
  "firstRejection [] = None"
| "firstRejection ((Inl e, d) # rest) =
     (case firstRejection rest of
        Some (e', d') \<Rightarrow> if d' < d then Some (e', d') else Some (e, d)
      | None \<Rightarrow> Some (e, d))"
| "firstRejection ((Inr v, d) # rest) = firstRejection rest"

fun fulfilledValues :: "((jomql_error + 'a) \<times> nat) list \<Rightarrow> 'a list" where
  "fulfilledValues [] = []"
| "fulfilledValues ((Inr v, d) # rest) = v # fulfilledValues rest"
| "fulfilledValues ((Inl e, d) # rest) = fulfilledValues rest"

definition promiseAll :: "((jomql_error + 'a) \<times> nat) list \<Rightarrow> (jomql_error + 'a list) \<times> nat" where
  "promiseAll promises =
     (if promises = [] then (Inr [], 0)
      else
        (case firstRejection promises of
           Some (e, d) \<Rightarrow> (Inl e, d + 1)
         | None \<Rightarrow> (Inr (fulfilledValues promises), foldr max (map snd promises) 0 + 1)))"

text \<open>\<open>return Promise.all(...)\<close> from an async function, the promise settling at \<open>d\<close>.\<close>

definition returnPromise :: "nat \<Rightarrow> nat" where
  "returnPromise d = max d 1 + 1"

text \<open>
  \<open>settleJomqlResults\<close> gives the outcome of the promise \<open>validateJomqlResults\<close> returns
  and the time it settles; \<open>settleNestedFields\<close> is the loop
  \<open>for (const field in jomqlResolverNode.nested)\<close> with its \<open>await\<close>, started at time
  \<open>u\<close>, which fills the returned object; \<open>settleElements\<close> is the map of the async
  function over the elements of an array result, each started at the time of the call.
\<close>

fun settleJomqlResults ::
    "objectTypeDefs \<Rightarrow> jsval \<Rightarrow> jomqlResolverNode \<Rightarrow> string list
       \<Rightarrow> (jomql_error + jsval) \<times> nat"
and settleNestedFields ::
    "objectTypeDefs \<Rightarrow> jsval \<Rightarrow> (string \<times> jomqlResolverNode) list \<Rightarrow> string list
       \<Rightarrow> (string \<times> jsval) list \<Rightarrow> nat \<Rightarrow> (jomql_error + (string \<times> jsval) list) \<times> nat"
and settleElements ::
    "objectTypeDefs \<Rightarrow> jsval list \<Rightarrow> (string \<times> jomqlResolverNode) list \<Rightarrow> string list
       \<Rightarrow> ((jomql_error + jsval) \<times> nat) list"
where
  "settleJomqlResults defs jomqlResultsNode (JomqlResolverNode typeDef q a (Some nestedNodes))
       fieldPath =
     (if jomqlResultsNode = JNull then (Inr JNull, 0)
      else if field_arrayOptions typeDef \<noteq> None then
        (case jomqlResultsNode of
           JArr elems \<Rightarrow>
             (case promiseAll (settleElements defs elems nestedNodes fieldPath) of
                (Inl e, d) \<Rightarrow> (Inl e, returnPromise d)
              | (Inr rs, d) \<Rightarrow> (Inr (JArr rs), returnPromise d))
         | _ \<Rightarrow> (Inl (JomqlResultError ''Expecting array or null'' fieldPath), 0))
      else if length (map fst nestedNodes) < 1
        then (Inr (if isObject jomqlResultsNode then JObj [] else JNull), 0)
      else if \<not> isObject jomqlResultsNode
        then (Inl (JomqlResultError ''Expecting object'' fieldPath), 0)
      else
        (case settleNestedFields defs jomqlResultsNode nestedNodes fieldPath [] 0 of
           (Inl e, d) \<Rightarrow> (Inl e, d)
         | (Inr tempReturnValue, d) \<Rightarrow> (Inr (JObj tempReturnValue), d)))"
| "settleJomqlResults defs jomqlResultsNode (JomqlResolverNode typeDef q a None) fieldPath =
     (case validateResultFields jomqlResultsNode typeDef fieldPath of
        Inl e \<Rightarrow> (Inl e, 0)
      | Inr u \<Rightarrow> (serializeLeaf defs jomqlResultsNode typeDef fieldPath, 0))"
| "settleNestedFields defs v [] fieldPath returnValue u = (Inr returnValue, u)"
| "settleNestedFields defs v ((field, child) # rest) fieldPath returnValue u =
     (case getField v field of
        Inl e \<Rightarrow> (Inl e, u)
      | Inr x \<Rightarrow>
          (case settleJomqlResults defs x child (fieldPath @ [field]) of
             (Inl e, d) \<Rightarrow> (Inl e, u + d + 1)
           | (Inr r, d) \<Rightarrow>
               settleNestedFields defs v rest fieldPath (setProp returnValue field r) (u + d + 1)))"
| "settleElements defs [] nestedNodes fieldPath = []"
| "settleElements defs (ele # rest) nestedNodes fieldPath =
     (case settleNestedFields defs ele nestedNodes fieldPath [] 0 of
        (Inl e, d) \<Rightarrow> (Inl e, d)
      | (Inr arrReturnValue, d) \<Rightarrow> (Inr (JObj arrReturnValue), d))
     # settleElements defs rest nestedNodes fieldPath"

text \<open>The value \<open>validateJomqlResults\<close> resolves to, or the error it is rejected with.\<close>

definition validateJomqlResults ::
  "objectTypeDefs \<Rightarrow> jsval \<Rightarrow> jomqlResolverNode \<Rightarrow> string list \<Rightarrow> jomql_error + jsval" where
  "validateJomqlResults defs jomqlResultsNode jomqlResolverNode fieldPath =
     fst (settleJomqlResults defs jomqlResultsNode jomqlResolverNode fieldPath)"

section \<open>Resolver execution\<close>

text \<open>
  \<open>processJomqlResolverTree\<close> on the store; \<open>processNestedFields\<close> is its loop
  \<open>for (const field in jomqlResolverNode.nested)\<close>. The loop is entered only when
  \<open>results\<close> is an object, the one at address \<open>addr\<close>; \<open>tempReturnValue\<close> is bound to
  \<open>results\<close>, so it is the same address. Each iteration reads \<open>results[field]\<close>,
  awaits the recursive call (without \<open>fullTree\<close>, which defaults to false) and then
  assigns the value returned to \<open>tempReturnValue[field]\<close>. A root definition whose
  \<open>resolver\<close> is missing cannot be called. The shared object \<open>data\<close> is a parameter;
  a caller that leaves it out passes a fresh empty object.
\<close>

fun processJomqlResolverTree ::
    "hval \<Rightarrow> jomqlResolverNode \<Rightarrow> hval \<Rightarrow> hval \<Rightarrow> hval \<Rightarrow> string list \<Rightarrow> bool \<Rightarrow> heap
       \<Rightarrow> jomql_error + hval \<times> heap"
and processNestedFields ::
    "addr \<Rightarrow> (string \<times> jomqlResolverNode) list \<Rightarrow> hval \<Rightarrow> hval \<Rightarrow> string list \<Rightarrow> heap
       \<Rightarrow> jomql_error + heap"
where
  "processJomqlResolverTree jomqlResultsNode (JomqlResolverNode typeDef q a nestedNodes)
       parentNode req data fieldPath fullTree h =
     (case (if isRootResolverDefinition typeDef then
              (case resolver typeDef of
                 None \<Rightarrow> Inl (TypeError ''resolver is not a function'')
               | Some rootResolver \<Rightarrow>
                   rootResolver \<lparr>ri_req = req, ri_fieldPath = fieldPath, ri_args = a, ri_query = q,
                                 ri_fieldValue = HUndef, ri_parentValue = HUndef, ri_data = HUndef\<rparr> h)
            else Inr (jomqlResultsNode, h)) of
        Inl e \<Rightarrow> Inl e
      | Inr (results, h1) \<Rightarrow>
          if isRootResolverDefinition typeDef \<and> \<not> fullTree then Inr (results, h1)
          else if resolver typeDef \<noteq> None \<and> \<not> isRootResolverDefinition typeDef then
            (if deferred typeDef then Inr (HNull, h1)
             else
               (case resolver typeDef of
                  Some resolverFn \<Rightarrow>
                    resolverFn \<lparr>ri_req = req, ri_fieldPath = fieldPath, ri_args = a, ri_query = q,
                                ri_fieldValue = results, ri_parentValue = parentNode,
                                ri_data = data\<rparr> h1
                | None \<Rightarrow> Inr (results, h1)))
          else
            (case (nestedNodes, results) of
               (Some nested, HObj addr) \<Rightarrow>
                 (case processNestedFields addr nested req data fieldPath h1 of
                    Inl e \<Rightarrow> Inl e
                  | Inr h2 \<Rightarrow> Inr (HObj addr, h2))
             | _ \<Rightarrow> Inr (results, h1)))"
| "processNestedFields addr [] req data fieldPath h = Inr h"
| "processNestedFields addr ((field, child) # rest) req data fieldPath h =
     (case processJomqlResolverTree (hgetProp (h addr) field) child (HObj addr) req data
             (fieldPath @ [field]) False h of
        Inl e \<Rightarrow> Inl e
      | Inr (v, h1) \<Rightarrow>
          processNestedFields addr rest req data fieldPath
            (h1(addr := setProp (h1 addr) field v)))"

declare processJomqlResolverTree.simps [simp del]

section \<open>Batch aggregation\<close>

text \<open>
  \<open>handleAggregatedQueries\<close> belongs to the helpers in which a resolver object maps each
  requested field to its type name, its definition, its query and its nested resolver
  object. Of the definition only \<open>dataloader\<close> is read. A dataloader is code of the
  schema: it receives the request, the keys as \<open>{ id: [...] }\<close>, the field's query, the
  type name, an empty object and the field path, may read and write the store, and
  returns the array of records or throws. The parameter \<open>args\<close> is handed down and
  never read. The \<open>query\<close> of a field is a value, \<open>undefined\<close> when the field has none,
  and is tested for truth as the source tests it.
\<close>

record dataloaderInput =
  dl_req :: hval
  dl_id :: "hval list"
  dl_query :: jsval
  dl_typename :: string
  dl_fieldPath :: "string list"

type_synonym dataloaderFunction = "dataloaderInput \<Rightarrow> heap \<Rightarrow> jomql_error + hval \<times> heap"

record typeDefinitionField =
  dataloader :: "dataloaderFunction option"

datatype jomqlResolverObjectField =
  JomqlResolverObjectField
    (rof_typename: string)
    (rof_typeDef: typeDefinitionField)
    (rof_query: jsval)
    (rof_nested: "(string \<times> jomqlResolverObjectField) list option")

text \<open>\<open>result[field]\<close> for a \<open>result\<close> that passed \<open>if (result)\<close>.\<close>

fun propertyOf :: "heap \<Rightarrow> hval \<Rightarrow> string \<Rightarrow> hval" where
  "propertyOf h (HObj a) field = hgetProp (h a) field"
| "propertyOf h v field = HUndef"

text \<open>\<open>keySet.add(k)\<close>: a \<open>Set\<close> keeps the order of first insertion.\<close>

definition setAdd :: "hval list \<Rightarrow> hval \<Rightarrow> hval list" where
  "setAdd keySet k = (if k \<in> set keySet then keySet else keySet @ [k])"

fun collectKeys :: "heap \<Rightarrow> hval list \<Rightarrow> string \<Rightarrow> hval list \<Rightarrow> hval list" where
  "collectKeys h [] field keySet = keySet"
| "collectKeys h (result # rest) field keySet =
     collectKeys h rest field
       (if htruthy result then setAdd keySet (propertyOf h result field) else keySet)"

text \<open>\<open>recordMap.set(result.id, result)\<close> over the records, and \<open>recordMap.get(k)\<close>.\<close>

fun buildRecordMap ::
  "heap \<Rightarrow> hval list \<Rightarrow> (hval \<rightharpoonup> hval) \<Rightarrow> jomql_error + (hval \<rightharpoonup> hval)" where
  "buildRecordMap h [] recordMap = Inr recordMap"
| "buildRecordMap h (result # rest) recordMap =
     (case readField h result ''id'' of
        Inl e \<Rightarrow> Inl e
      | Inr k \<Rightarrow> buildRecordMap h rest (recordMap(k \<mapsto> result)))"

definition mapGet :: "(hval \<rightharpoonup> hval) \<Rightarrow> hval \<Rightarrow> hval" where
  "mapGet recordMap k = (case recordMap k of Some r \<Rightarrow> r | None \<Rightarrow> HUndef)"

text \<open>The join: \<open>if (result) result[field] = recordMap.get(result[field])\<close> over the rows.\<close>

fun joinRecords ::
  "hval list \<Rightarrow> string \<Rightarrow> (hval \<rightharpoonup> hval) \<Rightarrow> heap \<Rightarrow> jomql_error + heap" where
  "joinRecords [] field recordMap h = Inr h"
| "joinRecords (result # rest) field recordMap h =
     (if htruthy result then
        (case writeField h result field (mapGet recordMap (propertyOf h result field)) of
           Inl e \<Rightarrow> Inl e
         | Inr h' \<Rightarrow> joinRecords rest field recordMap h')
      else joinRecords rest field recordMap h)"

text \<open>
  The branch of a field with a dataloader and a query. The second component of the state
  is not in the source: it records the dataloader calls made so far, in order, so that
  the number of calls and their arguments can be stated.
\<close>

definition aggregateField ::
  "hval list \<Rightarrow> string \<Rightarrow> dataloaderFunction \<Rightarrow> jsval \<Rightarrow> string \<Rightarrow> hval \<Rightarrow> string list
     \<Rightarrow> heap \<times> dataloaderInput list \<Rightarrow> jomql_error + heap \<times> dataloaderInput list" where
  "aggregateField resultsArray field dataloaderFn q typename req fieldPath st =
     (let h = fst st;
          keySet = collectKeys h resultsArray field [];
          call = \<lparr>dl_req = req, dl_id = keySet, dl_query = q, dl_typename = typename,
                   dl_fieldPath = fieldPath @ [field]\<rparr>
      in case dataloaderFn call h of
           Inl e \<Rightarrow> Inl e
         | Inr (aggregatedResults, h1) \<Rightarrow>
             (case aggregatedResults of
                HArr i records \<Rightarrow>
                  (case buildRecordMap h1 records Map.empty of
                     Inl e \<Rightarrow> Inl e
                   | Inr recordMap \<Rightarrow>
                       (case joinRecords resultsArray field recordMap h1 of
                          Inl e \<Rightarrow> Inl e
                        | Inr h2 \<Rightarrow> Inr (h2, snd st @ [call])))
              | _ \<Rightarrow> Inl (TypeError ''aggregatedResults.forEach is not a function'')))"

text \<open>\<open>resultsArray.map((result) => { if (result) return result[field]; })\<close>\<close>

definition nestedResultsArray :: "heap \<Rightarrow> hval list \<Rightarrow> string \<Rightarrow> hval list" where
  "nestedResultsArray h resultsArray field =
     map (\<lambda>result. if htruthy result then propertyOf h result field else HUndef) resultsArray"

fun handleAggregatedQueries ::
    "hval list \<Rightarrow> (string \<times> jomqlResolverObjectField) list \<Rightarrow> string \<Rightarrow> hval \<Rightarrow> jsval
       \<Rightarrow> string list \<Rightarrow> heap \<times> dataloaderInput list
       \<Rightarrow> jomql_error + heap \<times> dataloaderInput list"
and handleAggregatedField ::
    "hval list \<Rightarrow> string \<Rightarrow> jomqlResolverObjectField \<Rightarrow> string \<Rightarrow> hval \<Rightarrow> jsval
       \<Rightarrow> string list \<Rightarrow> heap \<times> dataloaderInput list
       \<Rightarrow> jomql_error + heap \<times> dataloaderInput list"
where
  "handleAggregatedQueries resultsArray [] typename req args fieldPath st = Inr st"
| "handleAggregatedQueries resultsArray ((field, entry) # rest) typename req args fieldPath st =
     (case handleAggregatedField resultsArray field entry typename req args fieldPath st of
        Inl e \<Rightarrow> Inl e
      | Inr st' \<Rightarrow> handleAggregatedQueries resultsArray rest typename req args fieldPath st')"
| "handleAggregatedField resultsArray field
       (JomqlResolverObjectField fieldTypename typeDef q nestedResolver)
       typename req args fieldPath st =
     (if dataloader typeDef \<noteq> None \<and> truthy q then
        aggregateField resultsArray field (the (dataloader typeDef)) q typename req fieldPath st
      else
        (case nestedResolver of
           Some nested \<Rightarrow>
             handleAggregatedQueries (nestedResultsArray (fst st) resultsArray field) nested
               fieldTypename req args (fieldPath @ [field]) st
         | None \<Rightarrow> Inr st))"

section \<open>Notions used to state the properties of batch aggregation\<close>

text \<open>A sibling row is \<open>null\<close>, \<open>undefined\<close> or an object; \<open>rowAddrs\<close> lists the objects.\<close>

fun isRow :: "hval \<Rightarrow> bool" where
  "isRow HNull = True"
| "isRow HUndef = True"
| "isRow (HObj a) = True"
| "isRow v = False"

fun rowAddrs :: "hval list \<Rightarrow> addr list" where
  "rowAddrs [] = []"
| "rowAddrs (HObj a # rows) = a # rowAddrs rows"
| "rowAddrs (v # rows) = rowAddrs rows"

text \<open>
  The record a key is joined with: the last of the returned records whose \<open>id\<close> is
  the key, \<open>undefined\<close> when there is none.
\<close>

definition joinedRecord :: "heap \<Rightarrow> hval list \<Rightarrow> hval \<Rightarrow> hval" where
  "joinedRecord h records k =
     (case find (\<lambda>r. propertyOf h r ''id'' = k) (rev records) of
        Some r \<Rightarrow> r
      | None \<Rightarrow> HUndef)"

text \<open>
  Every call of the list was made for one of the fields \<open>gs\<close> of the resolver object
  handled at field path \<open>p\<close>, or below such a field: its field path continues \<open>p\<close>
  with one of them.
\<close>

definition callsUnder :: "string list \<Rightarrow> string list \<Rightarrow> dataloaderInput list \<Rightarrow> bool" where
  "callsUnder p gs calls =
     (\<forall>c \<in> set calls. \<exists>g \<in> set gs. take (Suc (length p)) (dl_fieldPath c) = p @ [g])"

section \<open>Example schemas and inputs\<close>

text \<open>Transforms, types and definitions used to run the model on concrete inputs.\<close>

definition parseToNull :: "jsval \<Rightarrow> jomql_error + jsval" where
  "parseToNull v = Inr JNull"

definition parseThrows :: "jsval \<Rightarrow> jomql_error + jsval" where
  "parseThrows v = Inl (Thrown ''not a number'')"

definition exScalarNull :: jomqlScalarType where
  "exScalarNull = \<lparr>scalar_name = ''id'', parseValue = Some parseToNull, serialize = None\<rparr>"

definition exScalarThrows :: jomqlScalarType where
  "exScalarThrows = \<lparr>scalar_name = ''number'', parseValue = Some parseThrows, serialize = None\<rparr>"

definition exScalarPlain :: jomqlScalarType where
  "exScalarPlain = \<lparr>scalar_name = ''number'', parseValue = None, serialize = None\<rparr>"

definition serializeToString :: "jsval \<Rightarrow> jomql_error + jsval" where
  "serializeToString v = Inr (JStr ''value'')"

definition exScalarSerialized :: jomqlScalarType where
  "exScalarSerialized =
     \<lparr>scalar_name = ''string'', parseValue = None, serialize = Some serializeToString\<rparr>"

definition exLimitInput :: jomqlInputType where
  "exLimitInput = JomqlInputType ''paginator''
     [(''limit'', JomqlInputFieldType False False None (ArgScalar exScalarPlain))] None"

definition exResolver :: resolverFunction where
  "exResolver input h = Inr (HNull, h)"

definition exUserType :: jomqlObjectType where
  "exUserType = JomqlObjectType ''user''
     [(''id'', ObjectTypeDefinitionField (FieldScalar exScalarPlain) False None None False None False False),
      (''name'', ObjectTypeDefinitionField (FieldScalar exScalarPlain) True None None False None False False)]"

definition exUserField :: objectTypeDefinitionField where
  "exUserField =
     ObjectTypeDefinitionField (FieldObject exUserType) True None None False (Some exResolver) False False"

definition exNameField :: objectTypeDefinitionField where
  "exNameField =
     ObjectTypeDefinitionField (FieldScalar exScalarPlain) False None None False None False False"

definition exTitleField :: objectTypeDefinitionField where
  "exTitleField =
     ObjectTypeDefinitionField (FieldScalar exScalarSerialized) False None None False None False False"

definition exTagsField :: objectTypeDefinitionField where
  "exTagsField =
     ObjectTypeDefinitionField (FieldScalar exScalarPlain) True (Some \<lparr>allowNullElement = False\<rparr>)
       None False None False False"

definition exParams :: jomqlParams where
  "exParams = \<lparr>objectTypeDefs = Map.empty, inputTypeDefs = Map.empty, lookupValue = JBool True\<rparr>"

definition exPostsField :: objectTypeDefinitionField where
  "exPostsField =
     ObjectTypeDefinitionField (FieldScalar exScalarPlain) True None None False (Some exResolver) True False"

definition exPostsNode :: jomqlResolverNode where
  "exPostsNode = JomqlResolverNode exPostsField (JObj []) JNull None"

definition exPlainUserField :: objectTypeDefinitionField where
  "exPlainUserField =
     ObjectTypeDefinitionField (FieldObjectLookup ''user'') True None None False None False False"

definition exUserNode :: jomqlResolverNode where
  "exUserNode = JomqlResolverNode exPlainUserField (JObj [(''posts'', JBool True)]) JNull
     (Some [(''posts'', exPostsNode)])"

definition exHeap :: heap where
  "exHeap = (\<lambda>a. [])(0 := [(''id'', HNum 7), (''posts'', HNum 7)])"

definition exPostsLoader :: dataloaderFunction where
  "exPostsLoader input h = Inr (HArr 0 [HObj 10], h)"

definition exPostsEntry :: jomqlResolverObjectField where
  "exPostsEntry = JomqlResolverObjectField ''post'' \<lparr>dataloader = Some exPostsLoader\<rparr>
     (JObj [(''id'', JBool True)]) None"

definition exNameEntry :: jomqlResolverObjectField where
  "exNameEntry = JomqlResolverObjectField ''string'' \<lparr>dataloader = None\<rparr> JUndef None"

definition exUserResolverObject :: "(string \<times> jomqlResolverObjectField) list" where
  "exUserResolverObject = [(''name'', exNameEntry), (''posts'', exPostsEntry)]"

definition exUsers :: "hval list" where
  "exUsers = [HObj 1, HObj 2, HNull, HObj 3]"

definition exUsersHeap :: heap where
  "exUsersHeap = (\<lambda>a. [])
     (1 := [(''name'', HStr ''ann''), (''posts'', HNum 10)],
      2 := [(''name'', HStr ''bob''), (''posts'', HNum 10)],
      3 := [(''name'', HStr ''cat''), (''posts'', HNum 30)],
      10 := [(''id'', HNum 10), (''title'', HStr ''first'')])"

definition exPostsCall :: dataloaderInput where
  "exPostsCall = \<lparr>dl_req = HNull, dl_id = [HNum 10, HNum 30], dl_query = JObj [(''id'', JBool True)],
                   dl_typename = ''user'', dl_fieldPath = [''users'', ''posts'']\<rparr>"

definition exTwiceHeap :: heap where
  "exTwiceHeap = (\<lambda>a. [])
     (1 := [(''posts'', HNum 10)],
      10 := [(''id'', HNum 10), (''title'', HStr ''first'')])"

definition exTwiceCall :: dataloaderInput where
  "exTwiceCall = \<lparr>dl_req = HNull, dl_id = [HNum 10], dl_query = JObj [(''id'', JBool True)],
                   dl_typename = ''user'', dl_fieldPath = [''users'', ''posts'']\<rparr>"

section \<open>Properties of the validation of arguments\<close>

subsection \<open>Reads and writes of different keys\<close>

text \<open>
  The loop over the declared fields writes or deletes the key it has just validated.
  Neither changes what a later iteration reads at another key, which is why
  \<open>validateArgFields\<close> may read every declared key from the object as it was on entry.
\<close>

lemma getProp_setProp_other: "k' \<noteq> k \<Longrightarrow> getProp (setProp kvs k v) k' = getProp kvs k'"
  by (induction kvs) auto

lemma getProp_delProp_other: "k' \<noteq> k \<Longrightarrow> getProp (delProp kvs k) k' = getProp kvs k'"
  by (induction kvs) (auto simp: delProp_def)

subsection \<open>Required arguments\<close>

text \<open>
  Claim C6. For every argument definition with \<open>required\<close> set, \<open>validateExternalArgs\<close>
  called with \<open>args\<close> undefined raises the args error \<open>Args is required\<close> at the
  current field path; it does not return a value.
\<close>

theorem validateExternalArgs_required_undefined:
  "required argDefinition \<Longrightarrow>
   validateExternalArgs defs JUndef (Some argDefinition) fieldPath
     = Inl (JomqlArgsError ''Args is required'' fieldPath)"
  by (simp add: validateExternalArgs.simps(2))

theorem validateExternalArgs_required_undefined_witness:
  "required (JomqlInputFieldType True False None (ArgScalar exScalarPlain)) \<and>
   validateExternalArgs Map.empty JUndef
     (Some (JomqlInputFieldType True False None (ArgScalar exScalarPlain))) [''id'', ''__args'']
     = Inl (JomqlArgsError ''Args is required'' [''id'', ''__args''])"
  using validateExternalArgs_required_undefined
          [of "JomqlInputFieldType True False None (ArgScalar exScalarPlain)" Map.empty
              "[''id'', ''__args'']"]
  by simp

subsection \<open>Exceptions of a scalar parser\<close>

lemma mapParse_fails: "x \<in> set xs \<Longrightarrow> isl (f x) \<Longrightarrow> isl (mapParse f xs)"
  by (induction xs) (auto split: sum.splits)

lemma parseScalarArgs_error: "parseScalarArgs s d args p = Inl e \<Longrightarrow> isArgsError e"
  by (auto simp: parseScalarArgs_def split: option.splits if_splits sum.splits jsval.splits)

lemma resolveArgType_scalar [simp]: "resolveArgType defs (ArgScalar s) p = Inr (ScalarDef s)"
  by (simp add: resolveArgType_def)

text \<open>
  Claim C5. For a scalar-typed argument with a \<open>parseValue\<close> transform and an input other
  than \<open>null\<close>: every error \<open>validateExternalArgs\<close> raises is an args error, whatever
  the transform throws; and where the transform is applied and throws (to the argument
  itself when the definition has no \<open>arrayOptions\<close>, to an element of the array when
  it has), the error raised is the args error \<open>Invalid scalar value\<close> for the scalar's
  name at the current field path.
\<close>

theorem validateExternalArgs_parse_exception:
  assumes "arg_type d = ArgScalar s" and "parseValue s = Some pv" and "args \<noteq> JNull"
  shows "(\<forall>e. validateExternalArgs defs args (Some d) p = Inl e \<longrightarrow> isArgsError e)
       \<and> (args \<noteq> JUndef \<and> arg_arrayOptions d = None \<and> isl (pv args)
            \<longrightarrow> validateExternalArgs defs args (Some d) p
                = Inl (JomqlArgsError (invalidScalarMessage (scalar_name s)) p))
       \<and> (\<forall>elems. args = JArr elems \<and> arg_arrayOptions d \<noteq> None \<and> (\<exists>ele\<in>set elems. isl (pv ele))
            \<longrightarrow> validateExternalArgs defs args (Some d) p
                = Inl (JomqlArgsError (invalidScalarMessage (scalar_name s)) p))"
proof (intro conjI allI impI)
  fix e assume "validateExternalArgs defs args (Some d) p = Inl e"
  then show "isArgsError e"
    using assms(1) by (auto simp: validateExternalArgs.simps(2) split: if_splits sum.splits dest: parseScalarArgs_error)
next
  assume a: "args \<noteq> JUndef \<and> arg_arrayOptions d = None \<and> isl (pv args)"
  then obtain x where "pv args = Inl x" by (cases "pv args") auto
  with a assms show "validateExternalArgs defs args (Some d) p
                = Inl (JomqlArgsError (invalidScalarMessage (scalar_name s)) p)"
    by (auto simp: validateExternalArgs.simps(2) parseScalarArgs_def invalidScalarMessage_def split: jsval.splits)
next
  fix elems
  assume a: "args = JArr elems \<and> arg_arrayOptions d \<noteq> None \<and> (\<exists>ele\<in>set elems. isl (pv ele))"
  then have "isl (mapParse pv elems)" by (auto intro: mapParse_fails)
  then obtain x where "mapParse pv elems = Inl x" by (cases "mapParse pv elems") auto
  with a assms show "validateExternalArgs defs args (Some d) p
                = Inl (JomqlArgsError (invalidScalarMessage (scalar_name s)) p)"
    by (auto simp: validateExternalArgs.simps(2) parseScalarArgs_def invalidScalarMessage_def)
qed

theorem validateExternalArgs_parse_exception_witness:
  "validateExternalArgs Map.empty (JNum 5)
     (Some (JomqlInputFieldType True False None (ArgScalar exScalarThrows))) [''limit'']
   = Inl (JomqlArgsError (invalidScalarMessage ''number'') [''limit''])"
  using validateExternalArgs_parse_exception [of "JomqlInputFieldType True False None (ArgScalar exScalarThrows)" exScalarThrows
               parseThrows "JNum 5" Map.empty "[''limit'']"]
  by (simp add: exScalarThrows_def parseThrows_def)

subsection \<open>A parser that returns null\<close>

text \<open>
  Claim C10 says that a parser which returns \<open>null\<close> or \<open>undefined\<close> for an input other
  than \<open>null\<close> makes \<open>validateExternalArgs\<close> return the raw argument. Under
  \<open>arrayOptions\<close> the parser is applied to the elements of an array argument and the
  array of the parsed elements is returned: the argument \<open>[1]\<close> comes back as \<open>[null]\<close>.
\<close>

theorem validateExternalArgs_parse_null_counterexample:
  "validateExternalArgs Map.empty (JArr [JNum 1])
     (Some (JomqlInputFieldType True False (Some \<lparr>allowNullElement = False\<rparr>) (ArgScalar exScalarNull))) []
   = Inr (JArr [JNull], JArr [JNum 1])"
  by (simp add: validateExternalArgs.simps(2) exScalarNull_def parseToNull_def parseScalarArgs_def coalesce_def nullish_def)

lemma mapParse_all:
  "map pv elems = map Inr parsed \<Longrightarrow> mapParse pv elems = Inr parsed"
  by (induction elems arbitrary: parsed) auto

text \<open>
  Claim C10, amended. For a scalar-typed argument whose definition has no \<open>arrayOptions\<close>,
  and an input that is neither \<open>null\<close> nor \<open>undefined\<close>: if \<open>parseValue\<close> returns
  \<open>null\<close> or \<open>undefined\<close> for it, \<open>validateExternalArgs\<close> returns the raw argument,
  and leaves the argument as it was. Under \<open>arrayOptions\<close> an array argument whose
  elements all parse is returned as the array of the parsed elements, whatever they
  are, \<open>null\<close> and \<open>undefined\<close> included; the argument itself is left as it was.
\<close>

theorem validateExternalArgs_parse_null:
  assumes "arg_type d = ArgScalar s" and "parseValue s = Some pv"
  shows "(args \<noteq> JNull \<and> args \<noteq> JUndef \<and> arg_arrayOptions d = None
            \<and> (\<exists>r. pv args = Inr r \<and> nullish r)
          \<longrightarrow> validateExternalArgs defs args (Some d) p = Inr (args, args))
       \<and> (\<forall>elems parsed.
             args = JArr elems \<and> arg_arrayOptions d \<noteq> None \<and> map pv elems = map Inr parsed
             \<longrightarrow> validateExternalArgs defs args (Some d) p = Inr (JArr parsed, args))"
proof (intro conjI impI allI)
  assume "args \<noteq> JNull \<and> args \<noteq> JUndef \<and> arg_arrayOptions d = None
            \<and> (\<exists>r. pv args = Inr r \<and> nullish r)"
  with assms show "validateExternalArgs defs args (Some d) p = Inr (args, args)"
    by (auto simp: validateExternalArgs.simps(2) parseScalarArgs_def coalesce_def split: jsval.splits)
next
  fix elems parsed
  assume a: "args = JArr elems \<and> arg_arrayOptions d \<noteq> None \<and> map pv elems = map Inr parsed"
  then have "mapParse pv elems = Inr parsed" by (simp add: mapParse_all)
  with a assms show "validateExternalArgs defs args (Some d) p = Inr (JArr parsed, args)"
    by (auto simp: validateExternalArgs.simps(2) parseScalarArgs_def coalesce_def nullish_def)
qed

theorem validateExternalArgs_parse_null_witness:
  "validateExternalArgs Map.empty (JNum 1)
     (Some (JomqlInputFieldType True False None (ArgScalar exScalarNull))) []
     = Inr (JNum 1, JNum 1)
   \<and> validateExternalArgs Map.empty (JArr [JNum 1, JNum 2])
       (Some (JomqlInputFieldType True False (Some \<lparr>allowNullElement = True\<rparr>)
                (ArgScalar exScalarNull))) []
     = Inr (JArr [JNull, JNull], JArr [JNum 1, JNum 2])"
  using validateExternalArgs_parse_null
          [of "JomqlInputFieldType True False None (ArgScalar exScalarNull)" exScalarNull
              parseToNull "JNum 1" Map.empty "[]"]
        validateExternalArgs_parse_null
          [of "JomqlInputFieldType True False (Some \<lparr>allowNullElement = True\<rparr>)
                 (ArgScalar exScalarNull)" exScalarNull
              parseToNull "JArr [JNum 1, JNum 2]" Map.empty "[]"]
  by (simp add: exScalarNull_def parseToNull_def nullish_def)

subsection \<open>Unknown keys of an input object\<close>

lemma validateArgFields_keys:
  "validateArgFields defs arg0 es p (cur, ks) = Inr (cur', ks')
   \<Longrightarrow> ks' = filter (\<lambda>k. \<not> hasProp es k) ks"
proof (induction es arbitrary: cur ks)
  case Nil
  then show ?case by (simp add: hasProp_def)
next
  case (Cons a es)
  obtain key argDef where a: "a = (key, argDef)" by (cases a)
  from Cons.prems a obtain v where
    rec: "validateArgFields defs arg0 es p
            (if v = JUndef then delProp cur key else setProp cur key v, removeAll key ks) = Inr (cur', ks')"
    by (auto split: sum.splits)
  have "ks' = filter (\<lambda>k. \<not> hasProp es k) (removeAll key ks)"
    by (rule Cons.IH [OF rec])
  also have "\<dots> = filter (\<lambda>k. \<not> hasProp (a # es) k) ks"
    by (induction ks) (auto simp: hasProp_def a)
  finally show ?case .
qed

lemma validateArgFields_succeeds:
  "\<forall>(key, argDef) \<in> set es. \<exists>v. validateExternalArgs defs (getProp arg0 key) (Some argDef) (p @ [key]) = Inr v
   \<Longrightarrow> \<exists>st'. validateArgFields defs arg0 es p st = Inr st'"
proof (induction es arbitrary: st)
  case Nil
  then show ?case by (cases st) simp
next
  case (Cons a es)
  obtain key argDef where a: "a = (key, argDef)" by (cases a)
  obtain cur ks where st: "st = (cur, ks)" by (cases st)
  from Cons.prems a obtain v where
    v: "validateExternalArgs defs (getProp arg0 key) (Some argDef) (p @ [key]) = Inr v" by auto
  from Cons.prems have
    "\<forall>(key, argDef) \<in> set es. \<exists>v. validateExternalArgs defs (getProp arg0 key) (Some argDef) (p @ [key]) = Inr v"
    by auto
  from Cons.IH [OF this] show ?case by (cases v) (simp add: a st v)
qed

lemma validateArgFields_result:
  "(\<exists>e. validateArgFields defs arg0 es p (cur, ks) = Inl e)
   \<or> (\<exists>cur'. validateArgFields defs arg0 es p (cur, ks)
               = Inr (cur', filter (\<lambda>k. \<not> hasProp es k) ks))"
proof (cases "validateArgFields defs arg0 es p (cur, ks)")
  case (Inl e)
  then show ?thesis by simp
next
  case (Inr st')
  obtain cur' ks' where st': "st' = (cur', ks')" by (cases st')
  with Inr validateArgFields_keys [of defs arg0 es p cur ks cur' ks'] show ?thesis by simp
qed

lemma validateArgsArray_append:
  "validateArgsArray defs d t (xs @ ys) p
   = (case validateArgsArray defs d t xs p of
        Inl e \<Rightarrow> Inl e
      | Inr xs' \<Rightarrow>
          (case validateArgsArray defs d t ys p of Inl e \<Rightarrow> Inl e | Inr ys' \<Rightarrow> Inr (xs' @ ys')))"
  by (induction xs) (auto split: sum.splits)

text \<open>
  Claim C4. For an argument object of an input type with keys that the type does not
  declare, the validation of the object never returns: it raises an error. When the
  declared fields all validate, it raises one args error at the current field path whose
  message lists all of those keys, in the order of the object's keys, joined by commas.
  This holds for the body of the loop over the argument objects, and so for
  \<open>validateExternalArgs\<close> on an object whose definition has no \<open>arrayOptions\<close>, and on
  an array under \<open>arrayOptions\<close> for the first object with such keys, when the
  elements before it validate.
\<close>

theorem validateExternalArgs_unknown_args:
  assumes "unknown = filter (\<lambda>k. \<not> hasProp (input_fields t) k) (map fst kvs)"
    and "unknown \<noteq> []"
  shows "isl (validateArg defs d t (JObj kvs) p)
       \<and> ((\<forall>(key, argDef) \<in> set (input_fields t).
              \<exists>v. validateExternalArgs defs (getProp kvs key) (Some argDef) (p @ [key]) = Inr v)
            \<longrightarrow> validateArg defs d t (JObj kvs) p
                  = Inl (JomqlArgsError (unknownArgsMessage unknown) p)
              \<and> (resolveArgType defs (arg_type d) p = Inr (InputDef t) \<and> arg_arrayOptions d = None
                   \<longrightarrow> validateExternalArgs defs (JObj kvs) (Some d) p
                         = Inl (JomqlArgsError (unknownArgsMessage unknown) p))
              \<and> (\<forall>ao before after before'.
                     resolveArgType defs (arg_type d) p = Inr (InputDef t)
                     \<and> arg_arrayOptions d = Some ao
                     \<and> (allowNullElement ao \<or> JNull \<notin> set (before @ JObj kvs # after))
                     \<and> validateArgsArray defs d t before p = Inr before'
                   \<longrightarrow> validateExternalArgs defs (JArr (before @ JObj kvs # after)) (Some d) p
                         = Inl (JomqlArgsError (unknownArgsMessage unknown) p)))"
proof (intro conjI impI allI)
  show "isl (validateArg defs d t (JObj kvs) p)"
    using validateArgFields_result [of defs kvs "input_fields t" p kvs "map fst kvs"] assms
    by (auto simp: validateArg.simps)
next
  assume ok: "\<forall>(key, argDef) \<in> set (input_fields t).
              \<exists>v. validateExternalArgs defs (getProp kvs key) (Some argDef) (p @ [key]) = Inr v"
  obtain cur' ks' where
    run: "validateArgFields defs kvs (input_fields t) p (kvs, map fst kvs) = Inr (cur', ks')"
    using validateArgFields_succeeds [OF ok, of "(kvs, map fst kvs)"] by auto
  have ks': "ks' = unknown"
    using validateArgFields_keys [OF run] assms(1) by simp
  show body: "validateArg defs d t (JObj kvs) p = Inl (JomqlArgsError (unknownArgsMessage unknown) p)"
    using run ks' assms(2) by (simp add: validateArg.simps)
  {
    assume "resolveArgType defs (arg_type d) p = Inr (InputDef t) \<and> arg_arrayOptions d = None"
    then show "validateExternalArgs defs (JObj kvs) (Some d) p
                 = Inl (JomqlArgsError (unknownArgsMessage unknown) p)"
      using body by (simp add: validateExternalArgs.simps(2))
  }
  {
    fix ao before after before'
    assume a: "resolveArgType defs (arg_type d) p = Inr (InputDef t)
               \<and> arg_arrayOptions d = Some ao
               \<and> (allowNullElement ao \<or> JNull \<notin> set (before @ JObj kvs # after))
               \<and> validateArgsArray defs d t before p = Inr before'"
    then have "validateArgsArray defs d t (before @ JObj kvs # after) p
                 = Inl (JomqlArgsError (unknownArgsMessage unknown) p)"
      using body by (simp add: validateArgsArray_append)
    with a show "validateExternalArgs defs (JArr (before @ JObj kvs # after)) (Some d) p
                 = Inl (JomqlArgsError (unknownArgsMessage unknown) p)"
      by (auto simp: validateExternalArgs.simps(2))
  }
qed

theorem validateExternalArgs_unknown_args_witness:
  "validateExternalArgs Map.empty
     (JObj [(''limit'', JNum 1), (''unknown'', JNum 1), (''other'', JNum 2)])
     (Some (JomqlInputFieldType True False None (ArgInput exLimitInput))) [''__args'']
   = Inl (JomqlArgsError (unknownArgsMessage [''unknown'', ''other'']) [''__args''])"
  using validateExternalArgs_unknown_args
          [of "[''unknown'', ''other'']" exLimitInput
              "[(''limit'', JNum 1), (''unknown'', JNum 1), (''other'', JNum 2)]" Map.empty
              "JomqlInputFieldType True False None (ArgInput exLimitInput)" "[''__args'']"]
  by (simp add: validateExternalArgs.simps(2) exLimitInput_def exScalarPlain_def resolveArgType_def
        hasProp_def parseScalarArgs_def coalesce_def nullish_def)

section \<open>Properties of the tree builder\<close>

lemma resolveFieldType_simps [simp]:
  "resolveFieldType defs (FieldScalar s) p = Inr (ScalarField s)"
  "resolveFieldType defs (FieldObject t) p = Inr (ObjectField t)"
  "resolveFieldType defs FieldUndefined p = Inr UndefinedField"
  by (simp_all add: resolveFieldType_def)

lemma generateNestedNodes_resolver:
  "resolver resolverObject \<noteq> None \<Longrightarrow>
   generateNestedNodes params resolverObject t kvs p False st = Inr st' \<Longrightarrow> st' = st"
proof (induction kvs)
  case Nil
  then show ?case by (cases st) simp
next
  case (Cons kv kvs)
  obtain field v where kv: "kv = (field, v)" by (cases kv)
  obtain ns kvs' where st: "st = (ns, kvs')" by (cases st)
  from Cons.prems have "generateNestedNodes params resolverObject t kvs p False st = Inr st'"
    by (auto simp: kv st split: if_splits option.splits)
  with Cons show ?case by simp
qed

subsection \<open>A field with its own resolver\<close>

text \<open>
  Claim C2 says that for a field with its own resolver, \<open>fullTree\<close> false and an object
  as field value, the node returned has \<open>nested\<close> undefined. For a field of an object
  type the builder sets \<open>nestedNodes\<close> to the empty object before its loop and skips
  only the recursive calls, so \<open>nested\<close> is the empty object: the query \<open>{id: true}\<close>
  on a user field with a resolver gives a node whose \<open>nested\<close> is \<open>{}\<close>.
\<close>

theorem generateJomqlResolverTree_resolver_nested_counterexample:
  "generateJomqlResolverTree exParams (JObj [(''id'', JBool True)]) exUserField [''user''] False
   = Inr (JomqlResolverNode exUserField (JObj [(''id'', JBool True)]) JNull (Some []),
          JObj [(''id'', JBool True)])"
  by (simp add: generateJomqlResolverTree.simps exParams_def exUserField_def exUserType_def
        hasProp_def argsOf_def queryOf_def fieldIn_def Let_def)

text \<open>
  Claim C2, amended. For a field definition with its own resolver, \<open>fullTree\<close> false and
  an object as field value, a node that \<open>generateJomqlResolverTree\<close> returns has no
  nested child: \<open>nested\<close> is the empty object when the field's type is an object type,
  and undefined when it is a leaf type.
\<close>

theorem generateJomqlResolverTree_resolver_nested:
  assumes "resolver resolverObject \<noteq> None"
    and "generateJomqlResolverTree params (JObj kvs) resolverObject p False = Inr (node, fieldValue')"
  shows "\<exists>fieldType.
           resolveFieldType (objectTypeDefs params) (field_type resolverObject) p = Inr fieldType
           \<and> node_nested node = (if isObjectType fieldType then Some [] else None)"
  using assms(2)
  by (auto simp: generateJomqlResolverTree.simps Let_def
           split: sum.splits if_splits fieldDefType.splits prod.splits
           dest!: generateNestedNodes_resolver [OF assms(1)])

theorem generateJomqlResolverTree_resolver_nested_witness:
  "resolver exUserField \<noteq> None
   \<and> generateJomqlResolverTree exParams (JObj [(''id'', JBool True)]) exUserField [''user''] False
       = Inr (JomqlResolverNode exUserField (JObj [(''id'', JBool True)]) JNull (Some []),
              JObj [(''id'', JBool True)])
   \<and> node_nested (JomqlResolverNode exUserField (JObj [(''id'', JBool True)]) JNull (Some [])) = Some []"
proof -
  have r: "resolver exUserField \<noteq> None" by (simp add: exUserField_def)
  have g: "generateJomqlResolverTree exParams (JObj [(''id'', JBool True)]) exUserField [''user''] False
       = Inr (JomqlResolverNode exUserField (JObj [(''id'', JBool True)]) JNull (Some []),
              JObj [(''id'', JBool True)])"
    by (simp add: generateJomqlResolverTree.simps exParams_def exUserField_def exUserType_def
        hasProp_def argsOf_def queryOf_def fieldIn_def Let_def)
  have t: "resolveFieldType (objectTypeDefs exParams) (field_type exUserField) [''user'']
             = Inr (ObjectField exUserType)"
    by (simp add: exUserField_def)
  from generateJomqlResolverTree_resolver_nested [OF r g] t r g show ?thesis by auto
qed

subsection \<open>The query of a leaf field\<close>

lemma only_args_iff:
  "(\<not> hasProp kvs ''__args'' \<or> length (map fst kvs) \<noteq> 1) = (map fst kvs \<noteq> [''__args''])"
  by (cases kvs) (auto simp: hasProp_def)

text \<open>
  Claim C7. For a leaf field (its type resolves to a scalar) whose query value is an
  object: unless the keys of the object are exactly \<open>__args\<close>, the builder raises the
  query error \<open>Scalar node can only accept __args and no other field\<close> at the field
  path; when they are, the builder raises no error of its own, only what the
  validation of the arguments raises.
\<close>

theorem generateJomqlResolverTree_leaf_only_args:
  assumes "resolveFieldType (objectTypeDefs params) (field_type resolverObject) p = Inr (ScalarField s)"
  shows "(map fst kvs \<noteq> [''__args''] \<longrightarrow>
            generateJomqlResolverTree params (JObj kvs) resolverObject p fullTree
              = Inl (JomqlQueryError ''Scalar node can only accept __args and no other field'' p))
       \<and> (map fst kvs = [''__args''] \<longrightarrow>
            (case validateExternalArgs (inputTypeDefs params) (getProp kvs ''__args'')
                    (field_args resolverObject) (p @ [''__args'']) of
               Inl e \<Rightarrow> generateJomqlResolverTree params (JObj kvs) resolverObject p fullTree = Inl e
             | Inr r \<Rightarrow> isl (generateJomqlResolverTree params (JObj kvs) resolverObject p fullTree) = False))"
  using assms only_args_iff [of kvs]
  by (auto simp: generateJomqlResolverTree.simps Let_def split: sum.splits prod.splits)

theorem generateJomqlResolverTree_leaf_only_args_witness:
  "generateJomqlResolverTree exParams (JObj [(''__args'', JNull), (''first'', JBool True)])
     exNameField [''name''] False
   = Inl (JomqlQueryError ''Scalar node can only accept __args and no other field'' [''name''])
   \<and> isl (generateJomqlResolverTree exParams (JObj [(''__args'', JNull)]) exNameField [''name''] False)
     = False"
  using generateJomqlResolverTree_leaf_only_args [of exParams exNameField "[''name'']" exScalarPlain
               "[(''__args'', JNull), (''first'', JBool True)]" False]
        generateJomqlResolverTree_leaf_only_args [of exParams exNameField "[''name'']" exScalarPlain "[(''__args'', JNull)]" False]
  by (simp add: exNameField_def exParams_def)

section \<open>Properties of the validation of results\<close>

text \<open>
  Claim C8. For a leaf node (no nested nodes) whose definition has \<open>allowNull\<close> false
  and no \<open>arrayOptions\<close>, the validation of a \<open>null\<close> or \<open>undefined\<close> result raises
  the result error \<open>Null value not allowed\<close> at the field path, in
  \<open>validateResultFields\<close> and so in \<open>validateJomqlResults\<close>, which checks before it
  looks at the type: whether the scalar has a \<open>serialize\<close> function plays no part.
\<close>

theorem validateJomqlResults_null_leaf:
  assumes "\<not> allowNull typeDef" and "field_arrayOptions typeDef = None"
    and "v = JNull \<or> v = JUndef"
  shows "validateResultFields v typeDef p = Inl (JomqlResultError ''Null value not allowed'' p)
       \<and> validateJomqlResults defs v (JomqlResolverNode typeDef q a None) p
           = Inl (JomqlResultError ''Null value not allowed'' p)"
  using assms
  by (auto simp: validateJomqlResults_def validateResultFields_def validateResultNullish_def
        nullNotAllowedMessage_def)

theorem validateJomqlResults_null_leaf_witness:
  "validateJomqlResults Map.empty JNull (JomqlResolverNode exTitleField (JObj []) JNull None) [''title'']
     = Inl (JomqlResultError ''Null value not allowed'' [''title''])
   \<and> validateJomqlResults Map.empty JUndef (JomqlResolverNode exNameField (JObj []) JNull None) [''name'']
     = Inl (JomqlResultError ''Null value not allowed'' [''name''])"
  using validateJomqlResults_null_leaf [of exTitleField JNull "[''title'']" Map.empty "JObj []" JNull]
        validateJomqlResults_null_leaf [of exNameField JUndef "[''name'']" Map.empty "JObj []" JNull]
  by (simp add: exTitleField_def exNameField_def)

text \<open>
  Claim C9. For a definition with \<open>arrayOptions\<close>: a value that is neither an array nor
  \<open>null\<close> raises a result error (\<open>Array expected\<close>, or \<open>Array or null expected\<close> when
  \<open>allowNull\<close> is set), in \<open>validateResultFields\<close> and in \<open>validateJomqlResults\<close> on
  a leaf node; and the validation of \<open>null\<close> succeeds exactly when \<open>allowNull\<close> is
  set, raising \<open>Array expected\<close> otherwise.
\<close>

theorem validateResultFields_array_shape:
  assumes "field_arrayOptions typeDef \<noteq> None"
  shows "(\<not> isArray v \<and> v \<noteq> JNull \<longrightarrow>
            validateResultFields v typeDef p
              = Inl (JomqlResultError (if allowNull typeDef then ''Array or null expected''
                                       else ''Array expected'') p)
          \<and> validateJomqlResults defs v (JomqlResolverNode typeDef q a None) p
              = Inl (JomqlResultError (if allowNull typeDef then ''Array or null expected''
                                       else ''Array expected'') p))
       \<and> ((validateResultFields JNull typeDef p = Inr ()) = allowNull typeDef)
       \<and> (\<not> allowNull typeDef \<longrightarrow>
            validateResultFields JNull typeDef p = Inl (JomqlResultError ''Array expected'' p))"
  using assms
  by (cases v) (auto simp: validateJomqlResults_def validateResultFields_def)

theorem validateResultFields_array_shape_witness:
  "validateResultFields (JNum 3) exTagsField [''tags'']
     = Inl (JomqlResultError ''Array or null expected'' [''tags''])
   \<and> validateResultFields JNull exTagsField [''tags''] = Inr ()"
  using validateResultFields_array_shape [of exTagsField "JNum 3" "[''tags'']" Map.empty "JObj []" JNull]
  by (simp add: exTagsField_def)

section \<open>Properties of resolver execution\<close>




section \<open>Properties of batch aggregation\<close>

subsection \<open>The key set, the record map and the join\<close>

lemma collectKeys_set:
  "set (collectKeys h rows f ks) = set ks \<union> {propertyOf h r f | r. r \<in> set rows \<and> htruthy r}"
  by (induction rows arbitrary: ks) (auto simp: setAdd_def)

lemma collectKeys_distinct: "distinct ks \<Longrightarrow> distinct (collectKeys h rows f ks)"
  by (induction rows arbitrary: ks) (auto simp: setAdd_def)

lemma truthy_rows:
  "\<forall>r \<in> set rows. isRow r \<Longrightarrow>
   {propertyOf h r f | r. r \<in> set rows \<and> htruthy r} = (\<lambda>a. hgetProp (h a) f) ` set (rowAddrs rows)"
proof (induction rows)
  case Nil
  then show ?case by simp
next
  case (Cons r rows)
  then have IH: "{propertyOf h r f | r. r \<in> set rows \<and> htruthy r}
                 = (\<lambda>a. hgetProp (h a) f) ` set (rowAddrs rows)" by simp
  have split: "{propertyOf h x f | x. x \<in> set (r # rows) \<and> htruthy x}
      = (if htruthy r then {propertyOf h r f} else {}) \<union> {propertyOf h x f | x. x \<in> set rows \<and> htruthy x}"
    by auto
  from Cons.prems have "isRow r" by simp
  then show ?case unfolding split IH by (cases r) auto
qed

lemma find_append_case:
  "find P (xs @ ys) = (case find P xs of Some x \<Rightarrow> Some x | None \<Rightarrow> find P ys)"
  by (induction xs) auto

lemma find_Some_member: "find P xs = Some x \<Longrightarrow> x \<in> set xs \<and> P x"
  by (induction xs) (auto split: if_splits)

lemma buildRecordMap_find:
  "\<forall>r \<in> set records. r \<noteq> HNull \<and> r \<noteq> HUndef \<Longrightarrow>
   \<exists>m'. buildRecordMap h records m = Inr m'
       \<and> (\<forall>k. m' k = (case find (\<lambda>r. propertyOf h r ''id'' = k) (rev records) of
                         Some r \<Rightarrow> Some r | None \<Rightarrow> m k))"
proof (induction records arbitrary: m)
  case Nil
  then show ?case by simp
next
  case (Cons r records)
  from Cons.prems have r: "r \<noteq> HNull" "r \<noteq> HUndef" by auto
  then have rd: "readField h r ''id'' = Inr (propertyOf h r ''id'')" by (cases r) auto
  from Cons.prems have "\<forall>r \<in> set records. r \<noteq> HNull \<and> r \<noteq> HUndef" by simp
  from Cons.IH [OF this, of "m(propertyOf h r ''id'' \<mapsto> r)"]
  obtain m' where m': "buildRecordMap h records (m(propertyOf h r ''id'' \<mapsto> r)) = Inr m'"
    and look: "\<forall>k. m' k = (case find (\<lambda>r. propertyOf h r ''id'' = k) (rev records) of
                         Some r \<Rightarrow> Some r | None \<Rightarrow> (m(propertyOf h r ''id'' \<mapsto> r)) k)"
    by blast
  have "\<forall>k. m' k = (case find (\<lambda>r. propertyOf h r ''id'' = k) (rev (r # records)) of
                         Some r \<Rightarrow> Some r | None \<Rightarrow> m k)"
    using look by (auto simp: find_append_case split: option.splits)
  with m' rd show ?case by simp
qed


lemma hgetProp_setProp [simp]: "hgetProp (setProp kvs f x) f = x"
  by (induction kvs) auto

lemma hgetProp_setProp_other [simp]: "g \<noteq> f \<Longrightarrow> hgetProp (setProp kvs f x) g = hgetProp kvs g"
  by (induction kvs) auto

lemma joinRecords_rows:
  "\<forall>r \<in> set rows. isRow r \<Longrightarrow> distinct (rowAddrs rows) \<Longrightarrow>
   joinRecords rows f m h
     = Inr (\<lambda>a. if a \<in> set (rowAddrs rows)
                  then setProp (h a) f (mapGet m (hgetProp (h a) f)) else h a)"
proof (induction rows arbitrary: h)
  case Nil
  then show ?case by simp
next
  case (Cons r rows)
  from Cons.prems have rows: "\<forall>r \<in> set rows. isRow r" and r: "isRow r" by simp_all
  show ?case
  proof (cases r)
    case (HObj a)
    with Cons.prems have a: "a \<notin> set (rowAddrs rows)" and d: "distinct (rowAddrs rows)" by simp_all
    let ?h1 = "h(a := setProp (h a) f (mapGet m (hgetProp (h a) f)))"
    have "joinRecords (r # rows) f m h = joinRecords rows f m ?h1"
      by (simp add: HObj)
    also have "\<dots> = Inr (\<lambda>b. if b \<in> set (rowAddrs rows)
                  then setProp (?h1 b) f (mapGet m (hgetProp (?h1 b) f)) else ?h1 b)"
      by (rule Cons.IH [OF rows d])
    also have "(\<lambda>b. if b \<in> set (rowAddrs rows)
                  then setProp (?h1 b) f (mapGet m (hgetProp (?h1 b) f)) else ?h1 b)
             = (\<lambda>b. if b \<in> set (rowAddrs (r # rows))
                  then setProp (h b) f (mapGet m (hgetProp (h b) f)) else h b)"
      using a by (auto simp: HObj fun_eq_iff)
    finally show ?thesis .
  next
    case HNull
    with Cons.prems Cons.IH [of h] show ?thesis by simp
  next
    case HUndef
    with Cons.prems Cons.IH [of h] show ?thesis by simp
  qed (use r in simp_all)
qed

lemma length_rowAddrs: "length (rowAddrs rows) \<le> length rows"
  by (induction rows rule: rowAddrs.induct) auto

subsection \<open>The calls made for a resolver object\<close>

lemma handleAggregatedQueries_append:
  "handleAggregatedQueries rows (xs @ ys) typename req args p st
   = (case handleAggregatedQueries rows xs typename req args p st of
        Inl e \<Rightarrow> Inl e
      | Inr st1 \<Rightarrow> handleAggregatedQueries rows ys typename req args p st1)"
proof (induction xs arbitrary: st)
  case Nil
  then show ?case by simp
next
  case (Cons x xs)
  obtain g e where x: "x = (g, e)" by (cases x)
  show ?case by (simp add: x Cons.IH split: sum.splits)
qed

lemma callsUnder_Nil [simp]: "callsUnder p gs []"
  by (simp add: callsUnder_def)

lemma callsUnder_append: "callsUnder p gs xs \<Longrightarrow> callsUnder p gs ys \<Longrightarrow> callsUnder p gs (xs @ ys)"
  by (auto simp: callsUnder_def)

lemma callsUnder_mono: "callsUnder p gs xs \<Longrightarrow> set gs \<subseteq> set gs' \<Longrightarrow> callsUnder p gs' xs"
  by (fastforce simp: callsUnder_def)

lemma callsUnder_nested: "callsUnder (p @ [g]) gs xs \<Longrightarrow> callsUnder p [g] xs"
proof -
  assume a: "callsUnder (p @ [g]) gs xs"
  have "take (Suc (length p)) (dl_fieldPath c) = p @ [g]" if c: "c \<in> set xs" for c
  proof -
    from a c obtain g' where "take (Suc (length (p @ [g]))) (dl_fieldPath c) = (p @ [g]) @ [g']"
      by (auto simp: callsUnder_def)
    then have "take (Suc (length p)) (take (Suc (length (p @ [g]))) (dl_fieldPath c))
               = take (Suc (length p)) ((p @ [g]) @ [g'])" by simp
    then show ?thesis by (simp add: min_def)
  qed
  then show ?thesis by (simp add: callsUnder_def)
qed

lemma callsUnder_filter:
  "callsUnder p gs xs \<Longrightarrow> f \<notin> set gs \<Longrightarrow> filter (\<lambda>c. dl_fieldPath c = p @ [f]) xs = []"
  by (auto simp: callsUnder_def filter_empty_conv)

lemma aggregateField_trace:
  "aggregateField rows g dataloaderFn q typename req p st = Inr st'
   \<Longrightarrow> \<exists>c. snd st' = snd st @ [c] \<and> dl_fieldPath c = p @ [g]"
  by (auto simp: aggregateField_def Let_def split: sum.splits prod.splits hval.splits)

lemma handle_trace:
  "handleAggregatedQueries rows ro typename req args p st = Inr st'
      \<Longrightarrow> \<exists>new. snd st' = snd st @ new \<and> callsUnder p (map fst ro) new"
  and "handleAggregatedField rows g entry typename req args p st = Inr st'
      \<Longrightarrow> \<exists>new. snd st' = snd st @ new \<and> callsUnder p [g] new"
proof (induction rows ro typename req args p st and rows g entry typename req args p st
       arbitrary: st' and st'
       rule: handleAggregatedQueries_handleAggregatedField.induct)
  case (1 resultsArray typename req args fieldPath st)
  then show ?case by simp
next
  case (2 resultsArray field entry rest typename req args fieldPath st)
  from "2.prems" obtain st1 where
    f: "handleAggregatedField resultsArray field entry typename req args fieldPath st = Inr st1"
    and r: "handleAggregatedQueries resultsArray rest typename req args fieldPath st1 = Inr st'"
    by (auto split: sum.splits)
  from "2.IH"(1) [OF f] obtain new1 where
    n1: "snd st1 = snd st @ new1" "callsUnder fieldPath [field] new1"
    by blast
  from "2.IH"(2) [OF f r] obtain new2 where
    n2: "snd st' = snd st1 @ new2" "callsUnder fieldPath (map fst rest) new2"
    by blast
  have "snd st' = snd st @ (new1 @ new2)" using n1 n2 by simp
  moreover have "callsUnder fieldPath (map fst ((field, entry) # rest)) (new1 @ new2)"
    by (intro callsUnder_append callsUnder_mono [OF n1(2)] callsUnder_mono [OF n2(2)]) auto
  ultimately show ?case by blast
next
  case (3 resultsArray field fieldTypename typeDef q nestedResolver typename req args fieldPath st)
  show ?case
  proof (cases "dataloader typeDef \<noteq> None \<and> truthy q")
    case True
    with "3.prems" have
      "aggregateField resultsArray field (the (dataloader typeDef)) q typename req fieldPath st
         = Inr st'"
      by simp
    then obtain c where c: "snd st' = snd st @ [c]" "dl_fieldPath c = fieldPath @ [field]"
      using aggregateField_trace by blast
    then have "callsUnder fieldPath [field] [c]" by (simp add: callsUnder_def)
    with c show ?thesis by blast
  next
    case False
    show ?thesis
    proof (cases nestedResolver)
      case None
      with False "3.prems" have "st' = st" by auto
      then show ?thesis by simp
    next
      case (Some nested)
      with False "3.prems" have run:
        "handleAggregatedQueries (nestedResultsArray (fst st) resultsArray field) nested
           fieldTypename req args (fieldPath @ [field]) st = Inr st'"
        by auto
      have "\<exists>new. snd st' = snd st @ new \<and> callsUnder (fieldPath @ [field]) (map fst nested) new"
        by (rule "3.IH" [OF False Some run])
      then show ?thesis using callsUnder_nested by blast
    qed
  qed
qed

subsection \<open>One batched fetch per field\<close>





end
